theory Spec2Isabelle
  imports Complex_Main "HOL-Library.Word" "HOL-Library.Sublist"
begin

section \<open>JavaScript values used by the server\<close>

subsection \<open>Strings\<close>

text \<open>
  A JavaScript string is a sequence of UTF-16 code units; \<open>length\<close> counts code units.
  String literals of the source are written with \<open>js\<close>; the double quote, the line feed,
  the backslash and the em dash of the source's messages are given by their code units.
\<close>

type_synonym jschar = "16 word"
type_synonym jsstring = "jschar list"

definition ch :: "char \<Rightarrow> jschar" where
  "ch c = of_nat (of_char c)"

definition js :: "string \<Rightarrow> jsstring" where
  "js s = map ch s"

definition LF :: jschar where "LF = 0x0A"
definition CR :: jschar where "CR = 0x0D"
definition DQ :: jschar where "DQ = 0x22"
definition BACKSLASH :: jschar where "BACKSLASH = 0x5C"
definition EMDASH :: jschar where "EMDASH = 0x2014"

text \<open>
  \<open>String.prototype.trim\<close> removes WhiteSpace and LineTerminator code points from both
  ends: TAB, LF, VT, FF, CR, SP, NBSP, U+1680, U+2000..U+200A, U+2028, U+2029, U+202F,
  U+205F, U+3000 and U+FEFF.
\<close>

definition isWhiteSpace :: "jschar \<Rightarrow> bool" where
  "isWhiteSpace c \<longleftrightarrow>
     c = 0x09 \<or> c = 0x0A \<or> c = 0x0B \<or> c = 0x0C \<or> c = 0x0D \<or> c = 0x20 \<or> c = 0xA0
     \<or> c = 0x1680 \<or> (0x2000 \<le> c \<and> c \<le> 0x200A) \<or> c = 0x2028 \<or> c = 0x2029
     \<or> c = 0x202F \<or> c = 0x205F \<or> c = 0x3000 \<or> c = 0xFEFF"

definition trim :: "jsstring \<Rightarrow> jsstring" where
  "trim s = rev (dropWhile isWhiteSpace (rev (dropWhile isWhiteSpace s)))"

text \<open>\<open>s.split(sep)\<close> for a one-character separator: always at least one piece.\<close>

fun splitOn :: "'a \<Rightarrow> 'a list \<Rightarrow> 'a list list" where
  "splitOn sep [] = [[]]"
| "splitOn sep (x # xs) =
     (if x = sep then [] # splitOn sep xs
      else (case splitOn sep xs of
              [] \<Rightarrow> [[x]]
            | piece # pieces \<Rightarrow> (x # piece) # pieces))"

text \<open>\<open>xs.join(sep)\<close>.\<close>

fun joinWith :: "'a list \<Rightarrow> 'a list list \<Rightarrow> 'a list" where
  "joinWith sep [] = []"
| "joinWith sep [x] = x"
| "joinWith sep (x # y # ys) = x @ sep @ joinWith sep (y # ys)"

text \<open>\<open>xs.filter(Boolean)\<close> on strings: the empty string is the only falsy one.\<close>

definition filterBoolean :: "jsstring list \<Rightarrow> jsstring list" where
  "filterBoolean xs = filter (\<lambda>x. x \<noteq> []) xs"

definition startsWith :: "jsstring \<Rightarrow> jsstring \<Rightarrow> bool" where
  "startsWith s p = (take (length p) s = p)"

definition endsWith :: "jsstring \<Rightarrow> jsstring \<Rightarrow> bool" where
  "endsWith s p = (length p \<le> length s \<and> drop (length s - length p) s = p)"

text \<open>
  \<open>s.split(/\r?\n/)[0]\<close>: the text before the first line break, where a carriage
  return directly before that line feed belongs to the break.
\<close>

definition firstLine :: "jsstring \<Rightarrow> jsstring" where
  "firstLine s =
     (let pre = takeWhile (\<lambda>c. c \<noteq> LF) s
      in if length pre < length s \<and> pre \<noteq> [] \<and> last pre = CR then butlast pre else pre)"

text \<open>Truthiness of an optional string (\<open>undefined\<close> and \<open>""\<close> are falsy).\<close>

fun truthyString :: "jsstring option \<Rightarrow> bool" where
  "truthyString None = False"
| "truthyString (Some s) = (s \<noteq> [])"

subsection \<open>Numbers\<close>

text \<open>
  A JavaScript number is an IEEE double: a finite value, NaN or an infinity. Every finite
  double is a real number, so finite values are carried as reals; the comparisons and
  \<open>Number.isInteger\<close> below are exact on them.
\<close>

datatype jsnumber = Finite real | NaN | PosInfinity | NegInfinity

fun Number_isInteger :: "jsnumber \<Rightarrow> bool" where
  "Number_isInteger (Finite x) = (of_int \<lfloor>x\<rfloor> = x)"
| "Number_isInteger _ = False"

text \<open>\<open>a < b\<close> and \<open>a > b\<close> against a finite constant \<open>b\<close>; NaN compares false.\<close>

fun numLess :: "jsnumber \<Rightarrow> real \<Rightarrow> bool" where
  "numLess (Finite x) b = (x < b)"
| "numLess NaN b = False"
| "numLess PosInfinity b = False"
| "numLess NegInfinity b = True"

fun numGreater :: "jsnumber \<Rightarrow> real \<Rightarrow> bool" where
  "numGreater (Finite x) b = (x > b)"
| "numGreater NaN b = False"
| "numGreater PosInfinity b = True"
| "numGreater NegInfinity b = False"

text \<open>Truthiness of an optional number: \<open>undefined\<close>, \<open>0\<close> and NaN are falsy.\<close>

fun truthyNumber :: "jsnumber option \<Rightarrow> bool" where
  "truthyNumber None = False"
| "truthyNumber (Some (Finite x)) = (x \<noteq> 0)"
| "truthyNumber (Some NaN) = False"
| "truthyNumber (Some _) = True"

text \<open>
  \<open>x / d\<close> for a finite positive constant \<open>d\<close>. The model carries the exact quotient. The
  runtime returns the double nearest to it, which is the quotient itself whenever that is a
  double (an integer below \<open>2^53\<close> is one); the rendering below leaves every other
  value to the runtime.
\<close>

fun divideBy :: "jsnumber \<Rightarrow> real \<Rightarrow> jsnumber" where
  "divideBy (Finite x) d = Finite (x / d)"
| "divideBy NaN d = NaN"
| "divideBy PosInfinity d = PosInfinity"
| "divideBy NegInfinity d = NegInfinity"

fun digitsOf :: "nat \<Rightarrow> jsstring" where
  "digitsOf n =
     (if n < 10 then [ch CHR ''0'' + of_nat n]
      else digitsOf (n div 10) @ [ch CHR ''0'' + of_nat (n mod 10)])"

declare digitsOf.simps [simp del]

text \<open>
  \<open>Number::toString\<close>, as a template literal applies it: the shortest digits that read
  back as the same double. Every integer of magnitude below \<open>2^53\<close> is a double and no
  other integer rounds to it, so its shortest digits are its decimal digits. The digits of
  any other finite value are those of the double nearest to it in the runtime's rendering,
  which is the parameter \<open>other\<close>.
\<close>

fun numberToString :: "(real \<Rightarrow> jsstring) \<Rightarrow> jsnumber \<Rightarrow> jsstring" where
  "numberToString other (Finite x) =
     (if of_int \<lfloor>x\<rfloor> = x \<and> \<bar>x\<bar> < 2 ^ 53
      then (if x < 0 then js ''-'' else []) @ digitsOf (nat \<bar>\<lfloor>x\<rfloor>\<bar>)
      else other x)"
| "numberToString other NaN = js ''NaN''"
| "numberToString other PosInfinity = js ''Infinity''"
| "numberToString other NegInfinity = js ''-Infinity''"

subsection \<open>JSON documents\<close>

datatype json =
    JNull
  | JBool bool
  | JNumber jsnumber
  | JString jsstring
  | JArray "json list"
  | JObject "(jsstring \<times> json) list"

section \<open>Input validation (\<open>src/utils/sanitize.ts\<close>)\<close>

text \<open>A validator returns the normalised value (\<open>Inr\<close>) or the message of the thrown Error (\<open>Inl\<close>).\<close>

definition isLetter :: "jschar \<Rightarrow> bool" where
  "isLetter c \<longleftrightarrow> (ch CHR ''a'' \<le> c \<and> c \<le> ch CHR ''z'') \<or> (ch CHR ''A'' \<le> c \<and> c \<le> ch CHR ''Z'')"

definition isDigit :: "jschar \<Rightarrow> bool" where
  "isDigit c \<longleftrightarrow> ch CHR ''0'' \<le> c \<and> c \<le> ch CHR ''9''"

text \<open>The class \<open>[a-zA-Z0-9._-]\<close>.\<close>

definition isIdentifierChar :: "jschar \<Rightarrow> bool" where
  "isIdentifierChar c \<longleftrightarrow>
     isLetter c \<or> isDigit c \<or> c = ch CHR ''.'' \<or> c = ch CHR ''_'' \<or> c = ch CHR ''-''"

text \<open>The class \<open>[a-zA-Z0-9.*?\[\]_\-/{}|]\<close>.\<close>

definition isGlobChar :: "jschar \<Rightarrow> bool" where
  "isGlobChar c \<longleftrightarrow>
     isLetter c \<or> isDigit c \<or> c = ch CHR ''.'' \<or> c = ch CHR ''*'' \<or> c = ch CHR ''?''
     \<or> c = ch CHR ''['' \<or> c = ch CHR '']'' \<or> c = ch CHR ''_'' \<or> c = ch CHR ''-''
     \<or> c = ch CHR ''/'' \<or> c = ch CHR ''{'' \<or> c = ch CHR ''}'' \<or> c = ch CHR ''|''"

text \<open>\<open>/^C+$/.test(s)\<close> for a character class \<open>C\<close>: non-empty and every code unit in the class.\<close>

definition matchesClassPlus :: "(jschar \<Rightarrow> bool) \<Rightarrow> jsstring \<Rightarrow> bool" where
  "matchesClassPlus cls s \<longleftrightarrow> s \<noteq> [] \<and> list_all cls s"

definition validateIdentifier :: "jsstring \<Rightarrow> jsstring + jsstring" where
  "validateIdentifier identifier =
     (let trimmed = trim identifier in
      if trimmed = [] then Inl (js ''Identifier must not be empty'')
      else if length trimmed > 100 then Inl (js ''Identifier must be 100 characters or fewer'')
      else if \<not> matchesClassPlus isIdentifierChar trimmed then
        Inl (js ''Invalid identifier '' @ [DQ] @ trimmed @ [DQ] @
             js ''. Only letters, digits, hyphens, underscores, and periods are allowed.'')
      else Inr trimmed)"

definition validateQuery :: "jsstring \<Rightarrow> jsstring + jsstring" where
  "validateQuery query =
     (let trimmed = trim query in
      if trimmed = [] then Inl (js ''Search query must not be empty'')
      else if length trimmed > 2000 then Inl (js ''Search query must be 2000 characters or fewer'')
      else Inr trimmed)"

definition validateGlob :: "jsstring \<Rightarrow> jsstring + jsstring" where
  "validateGlob pattern =
     (let trimmed = trim pattern in
      if trimmed = [] then Inl (js ''Glob pattern must not be empty'')
      else if length trimmed > 200 then Inl (js ''Glob pattern must be 200 characters or fewer'')
      else if \<not> matchesClassPlus isGlobChar trimmed then
        Inl (js ''Invalid glob pattern '' @ [DQ] @ trimmed @ [DQ] @
             js ''. Contains disallowed characters.'')
      else Inr trimmed)"

definition validateDestdir :: "jsstring \<Rightarrow> jsstring + jsstring" where
  "validateDestdir dir =
     (let trimmed = trim dir in
      if trimmed = [] then Inl (js ''Destination directory must not be empty'')
      else if length trimmed > 500 then
        Inl (js ''Destination directory path must be 500 characters or fewer'')
      else Inr trimmed)"

definition validateFormat :: "jsstring \<Rightarrow> jsstring + jsstring" where
  "validateFormat format =
     (let trimmed = trim format in
      if trimmed = [] then Inl (js ''Format must not be empty'')
      else if length trimmed > 100 then Inl (js ''Format name must be 100 characters or fewer'')
      else Inr trimmed)"

definition validateRows :: "jsnumber \<Rightarrow> jsstring + jsnumber" where
  "validateRows rows =
     (if \<not> Number_isInteger rows \<or> numLess rows 1 \<or> numGreater rows 10000
      then Inl (js ''rows must be an integer between 1 and 10000'')
      else Inr rows)"

definition validatePage :: "jsnumber \<Rightarrow> jsstring + jsnumber" where
  "validatePage page =
     (if \<not> Number_isInteger page \<or> numLess page 1
      then Inl (js ''page must be a positive integer'')
      else Inr page)"

text \<open>\<open>/^[a-zA-Z_][a-zA-Z0-9_]*$/.test(s)\<close>.\<close>

fun matchesFieldName :: "jsstring \<Rightarrow> bool" where
  "matchesFieldName [] = False"
| "matchesFieldName (c # cs) \<longleftrightarrow>
     (isLetter c \<or> c = ch CHR ''_'') \<and> list_all (\<lambda>d. isLetter d \<or> isDigit d \<or> d = ch CHR ''_'') cs"

definition validateFieldName :: "jsstring \<Rightarrow> jsstring + jsstring" where
  "validateFieldName field =
     (let trimmed = trim field in
      if \<not> matchesFieldName trimmed then
        Inl (js ''Invalid field name '' @ [DQ] @ trimmed @ [DQ] @
             js ''. Must be alphanumeric with underscores.'')
      else Inr trimmed)"

section \<open>Running the command-line client (\<open>src/utils/ia-runner.ts\<close>)\<close>

subsection \<open>The environment of the process\<close>

text \<open>
  The promisified \<open>execFile\<close> resolves with the two output texts or rejects with an error
  value. Of the rejection the runner reads whether it is an object with a truthy
  \<open>killed\<close> property, its optional \<open>stderr\<close> and \<open>message\<close>, and \<open>String(error)\<close>.
\<close>

record IaResult =
  stdout :: jsstring
  stderr :: jsstring

datatype ExecError =
  ExecError (killed: bool) (errStderr: "jsstring option") (errMessage: "jsstring option")
            (errString: jsstring)

record ExecOptions =
  timeout :: jsnumber
  maxBuffer :: "nat option"
  shell :: bool

text \<open>
  Everything the module reads from outside: the platform, child processes, environment
  variables, the file system, and the runtime's \<open>path.join\<close>, \<open>JSON.parse\<close> (\<open>Inl\<close> is the
  SyntaxError's message), \<open>JSON.stringify(v, null, 2)\<close> and number rendering. The file
  system calls return \<open>Inl\<close> with the error's message when they throw.
\<close>

record world =
  IS_WINDOWS :: bool
  execFile :: "jsstring \<Rightarrow> jsstring list \<Rightarrow> ExecOptions \<Rightarrow> ExecError + IaResult"
  env :: "jsstring \<Rightarrow> jsstring option"
  existsSync :: "jsstring \<Rightarrow> bool"
  readFileSync :: "jsstring \<Rightarrow> jsstring + jsstring"
  readdirSync :: "jsstring \<Rightarrow> jsstring + jsstring list"
  pathJoin :: "jsstring list \<Rightarrow> jsstring"
  JSON_parse :: "jsstring \<Rightarrow> jsstring + json"
  JSON_stringify :: "json \<Rightarrow> jsstring"
  Number_toString :: "real \<Rightarrow> jsstring"

definition DEFAULT_TIMEOUT_MS :: jsnumber where
  "DEFAULT_TIMEOUT_MS = Finite 120000"

definition DOWNLOAD_TIMEOUT_MS :: jsnumber where
  "DOWNLOAD_TIMEOUT_MS = Finite 600000"

subsection \<open>Executable resolution\<close>

record ResolvedIa =
  command :: jsstring
  useShell :: bool

text \<open>
  The module state: the cached \<open>resolvedIa\<close> (\<open>null\<close> is \<open>None\<close>) and the lines written
  with \<open>console.error\<close>.
\<close>

record state =
  resolvedIa :: "ResolvedIa option"
  consoleErrors :: "jsstring list"

definition remember :: "ResolvedIa \<Rightarrow> state \<Rightarrow> (jsstring + ResolvedIa) \<times> state" where
  "remember r s = (Inr r, s\<lparr>resolvedIa := Some r\<rparr>)"

text \<open>\<open>a || b\<close> on an optional string and a string.\<close>

definition orElse :: "jsstring option \<Rightarrow> jsstring \<Rightarrow> jsstring" where
  "orElse a b = (if truthyString a then the a else b)"

definition pyenvRoot :: "world \<Rightarrow> jsstring" where
  "pyenvRoot w =
     orElse (env w (js ''PYENV_ROOT''))
       (orElse (env w (js ''PYENV''))
          (pathJoin w [orElse (env w (js ''USERPROFILE'')) [], js ''.pyenv'', js ''pyenv-win'']))"

text \<open>The first candidate that exists, as the \<open>for\<close> loops over directory entries find it.\<close>

fun firstExisting :: "world \<Rightarrow> jsstring list \<Rightarrow> jsstring option" where
  "firstExisting w [] = None"
| "firstExisting w (candidate # rest) =
     (if existsSync w candidate then Some candidate else firstExisting w rest)"

text \<open>
  Strategy 2, the pyenv version file. \<open>readFileSync\<close> is called outside the \<open>try\<close>, so
  its error leaves the function (\<open>Inl\<close>); an error of \<open>readdirSync\<close> is swallowed.
\<close>

definition viaVersionFile :: "world \<Rightarrow> jsstring \<Rightarrow> jsstring \<Rightarrow> jsstring + jsstring option" where
  "viaVersionFile w rootDir versionsDir =
     (let versionFile = pathJoin w [rootDir, js ''version''] in
      if existsSync w versionFile then
        (case readFileSync w versionFile of
           Inl e \<Rightarrow> Inl e
         | Inr text \<Rightarrow>
             (let versionPrefix = firstLine (trim text) in
              case readdirSync w versionsDir of
                Inl _ \<Rightarrow> Inr None
              | Inr dirs \<Rightarrow>
                  (case find (\<lambda>d. startsWith d versionPrefix) dirs of
                     None \<Rightarrow> Inr None
                   | Some match \<Rightarrow>
                       (if match = [] then Inr None
                        else (let candidate =
                                    pathJoin w [versionsDir, match, js ''Scripts'', js ''ia.exe'']
                              in if existsSync w candidate then Inr (Some candidate)
                                 else Inr None)))))
      else Inr None)"

text \<open>Strategy 3, every pyenv version directory.\<close>

definition viaVersionDirs :: "world \<Rightarrow> jsstring \<Rightarrow> jsstring option" where
  "viaVersionDirs w versionsDir =
     (case readdirSync w versionsDir of
        Inl _ \<Rightarrow> None
      | Inr dirs \<Rightarrow>
          firstExisting w
            (map (\<lambda>dir. pathJoin w [versionsDir, dir, js ''Scripts'', js ''ia.exe'']) dirs))"

text \<open>Strategy 4, the conventional Python install locations.\<close>

definition pipBases :: "world \<Rightarrow> jsstring list" where
  "pipBases w =
     (let userProfile = orElse (env w (js ''USERPROFILE'')) [] in
      [pathJoin w [userProfile, js ''AppData'', js ''Local'', js ''Programs'', js ''Python''],
       pathJoin w [userProfile, js ''AppData'', js ''Roaming'', js ''Python''],
       js ''C:'' @ [BACKSLASH] @ js ''Python313'' @ [BACKSLASH] @ js ''Scripts'',
       js ''C:'' @ [BACKSLASH] @ js ''Python312'' @ [BACKSLASH] @ js ''Scripts'',
       js ''C:'' @ [BACKSLASH] @ js ''Python311'' @ [BACKSLASH] @ js ''Scripts''])"

definition probeBase :: "world \<Rightarrow> jsstring \<Rightarrow> jsstring option" where
  "probeBase w base =
     (if existsSync w base then
        (let candidate =
               (if endsWith base (js ''Scripts'') then Some (pathJoin w [base, js ''ia.exe''])
                else None)
         in if truthyString candidate \<and> existsSync w (the candidate) then candidate
            else (case readdirSync w base of
                    Inl _ \<Rightarrow> None
                  | Inr subs \<Rightarrow>
                      firstExisting w
                        (map (\<lambda>sub. pathJoin w [base, sub, js ''Scripts'', js ''ia.exe'']) subs)))
      else None)"

fun probeBases :: "world \<Rightarrow> jsstring list \<Rightarrow> jsstring option" where
  "probeBases w [] = None"
| "probeBases w (base # rest) =
     (case probeBase w base of
        Some found \<Rightarrow> Some found
      | None \<Rightarrow> probeBases w rest)"

definition shellWarning :: jsstring where
  "shellWarning =
     js ''Warning: Could not resolve ia.exe directly. Using shell mode '' @ [EMDASH] @
     js '' ensure inputs are validated.''"

text \<open>Strategy 4 and the last resort, shared by the paths that reach them.\<close>

definition viaPipOrShell :: "world \<Rightarrow> state \<Rightarrow> (jsstring + ResolvedIa) \<times> state" where
  "viaPipOrShell w s =
     (case probeBases w (pipBases w) of
        Some candidate \<Rightarrow> remember \<lparr>command = candidate, useShell = False\<rparr> s
      | None \<Rightarrow>
          remember \<lparr>command = js ''ia'', useShell = True\<rparr>
            (s\<lparr>consoleErrors := consoleErrors s @ [shellWarning]\<rparr>))"

definition resolveIaExecutable :: "world \<Rightarrow> state \<Rightarrow> (jsstring + ResolvedIa) \<times> state" where
  "resolveIaExecutable w s =
     (case resolvedIa s of
        Some r \<Rightarrow> (Inr r, s)
      | None \<Rightarrow>
          if \<not> IS_WINDOWS w then remember \<lparr>command = js ''ia'', useShell = False\<rparr> s
          else
            (case execFile w (js ''ia.exe'') [js ''--version'']
                    \<lparr>timeout = Finite 5000, maxBuffer = None, shell = False\<rparr> of
               Inr _ \<Rightarrow> remember \<lparr>command = js ''ia.exe'', useShell = False\<rparr> s
             | Inl _ \<Rightarrow>
                 (let rootDir = pyenvRoot w;
                      versionsDir = pathJoin w [rootDir, js ''versions'']
                  in if existsSync w versionsDir then
                       (case viaVersionFile w rootDir versionsDir of
                          Inl e \<Rightarrow> (Inl e, s)
                        | Inr (Some candidate) \<Rightarrow>
                            remember \<lparr>command = candidate, useShell = False\<rparr> s
                        | Inr None \<Rightarrow>
                            (case viaVersionDirs w versionsDir of
                               Some candidate \<Rightarrow>
                                 remember \<lparr>command = candidate, useShell = False\<rparr> s
                             | None \<Rightarrow> viaPipOrShell w s))
                     else viaPipOrShell w s)))"

subsection \<open>Availability check and invocation\<close>

definition unavailableMessage :: jsstring where
  "unavailableMessage =
     js ''The Internet Archive CLI (ia) is not installed or not on PATH.'' @ [LF] @
     js ''Install it with: pip install internetarchive'' @ [LF] @
     js ''Then configure with: ia configure'' @ [LF] @
     js ''Verify with: ia --version''"

definition checkIaAvailable :: "world \<Rightarrow> state \<Rightarrow> (jsstring + jsstring) \<times> state" where
  "checkIaAvailable w s =
     (case resolveIaExecutable w s of
        (Inl _, s') \<Rightarrow> (Inl unavailableMessage, s')
      | (Inr r, s') \<Rightarrow>
          (case execFile w (command r) [js ''--version'']
                  \<lparr>timeout = Finite 10000, maxBuffer = None, shell = useShell r\<rparr> of
             Inl _ \<Rightarrow> (Inl unavailableMessage, s')
           | Inr out \<Rightarrow> (Inr (trim (stdout out)), s')))"

text \<open>\<open>execError.stderr || execError.message || String(error)\<close>.\<close>

definition failureText :: "ExecError \<Rightarrow> jsstring" where
  "failureText e = orElse (errStderr e) (orElse (errMessage e) (errString e))"

definition timeoutMessage :: "world \<Rightarrow> jsstring list \<Rightarrow> jsnumber \<Rightarrow> jsstring" where
  "timeoutMessage w args timeoutMs =
     js ''ia command timed out after '' @
     numberToString (Number_toString w) (divideBy timeoutMs 1000) @
     js '' seconds. '' @ js ''Command: ia '' @ joinWith (js '' '') args"

definition runIa :: "world \<Rightarrow> state \<Rightarrow> jsstring list \<Rightarrow> jsnumber \<Rightarrow> (jsstring + IaResult) \<times> state" where
  "runIa w s args timeoutMs =
     (case resolveIaExecutable w s of
        (Inl e, s') \<Rightarrow> (Inl e, s')
      | (Inr r, s') \<Rightarrow>
          (case execFile w (command r) args
                  \<lparr>timeout = timeoutMs, maxBuffer = Some (50 * 1024 * 1024), shell = useShell r\<rparr> of
             Inr out \<Rightarrow> (Inr \<lparr>stdout = stdout out, stderr = stderr out\<rparr>, s')
           | Inl error \<Rightarrow>
               (if killed error then (Inl (timeoutMessage w args timeoutMs), s')
                else (Inl (js ''ia command failed: '' @ failureText error), s'))))"

section \<open>The tool handlers (\<open>src/tools\<close>)\<close>

text \<open>
  A tool result carries its text items and the error flag (absent in the source when the
  call succeeded, which is \<open>False\<close> here). A handler returns it with the module state.
\<close>

record CallToolResult =
  content :: "jsstring list"
  isError :: bool

definition errorResult :: "jsstring \<Rightarrow> CallToolResult" where
  "errorResult text = \<lparr>content = [text], isError = True\<rparr>"

definition textResult :: "jsstring \<Rightarrow> CallToolResult" where
  "textResult text = \<lparr>content = [text], isError = False\<rparr>"

text \<open>Sequencing of statements that may throw: the first thrown message wins.\<close>

definition andThen :: "jsstring + 'a \<Rightarrow> ('a \<Rightarrow> jsstring + 'b) \<Rightarrow> jsstring + 'b" where
  "andThen r f = (case r of Inl e \<Rightarrow> Inl e | Inr v \<Rightarrow> f v)"

subsection \<open>search\<close>

record SearchArgs =
  query :: jsstring
  fields' :: "jsstring list option"
  rows :: "jsnumber option"
  page :: "jsnumber option"

fun pushFields :: "jsstring list \<Rightarrow> jsstring list \<Rightarrow> jsstring + jsstring list" where
  "pushFields iaArgs [] = Inr iaArgs"
| "pushFields iaArgs (field # rest) =
     (case validateFieldName field of
        Inl e \<Rightarrow> Inl e
      | Inr validated \<Rightarrow> pushFields (iaArgs @ [js ''--field'', validated]) rest)"

text \<open>
  The validation and the argument vector of \<open>handleSearch\<close>: the validated page and row
  count are returned with the vector, since the output repeats them.
\<close>

definition searchArgv :: "world \<Rightarrow> SearchArgs \<Rightarrow> jsstring + (jsstring list \<times> jsnumber \<times> jsnumber)" where
  "searchArgv w args =
     andThen (validateQuery (query args)) (\<lambda>q.
     andThen (if truthyNumber (rows args) then validateRows (the (rows args))
              else Inr (Finite 50)) (\<lambda>r.
     andThen (if truthyNumber (page args) then validatePage (the (page args))
              else Inr (Finite 1)) (\<lambda>p.
     andThen (let iaArgs = [js ''search'', q, js ''--parameters'',
                            js ''page='' @ numberToString (Number_toString w) p @
                            js ''&rows='' @ numberToString (Number_toString w) r]
              in case fields' args of
                   None \<Rightarrow> Inr iaArgs
                 | Some fs \<Rightarrow> if length fs > 0 then pushFields iaArgs fs else Inr iaArgs)
       (\<lambda>iaArgs. Inr (iaArgs, p, r)))))"

definition searchLines :: "jsstring \<Rightarrow> jsstring list" where
  "searchLines out = filterBoolean (splitOn LF (trim out))"

fun parseLines :: "world \<Rightarrow> jsstring list \<Rightarrow> json list" where
  "parseLines w [] = []"
| "parseLines w (line # rest) =
     (case JSON_parse w line of
        Inr record \<Rightarrow> record # parseLines w rest
      | Inl _ \<Rightarrow> parseLines w rest)"

definition searchOutput :: "json list \<Rightarrow> jsnumber \<Rightarrow> jsnumber \<Rightarrow> json" where
  "searchOutput results p r =
     JObject [(js ''total_results'', JNumber (Finite (of_nat (length results)))),
              (js ''page'', JNumber p),
              (js ''rows'', JNumber r),
              (js ''results'', JArray results)]"

definition handleSearch :: "world \<Rightarrow> state \<Rightarrow> SearchArgs \<Rightarrow> CallToolResult \<times> state" where
  "handleSearch w s args =
     (case checkIaAvailable w s of
        (Inl e, s1) \<Rightarrow> (errorResult e, s1)
      | (Inr _, s1) \<Rightarrow>
          (case searchArgv w args of
             Inl msg \<Rightarrow> (errorResult (js ''Search failed: '' @ msg), s1)
           | Inr (iaArgs, p, r) \<Rightarrow>
               (case runIa w s1 iaArgs DEFAULT_TIMEOUT_MS of
                  (Inl msg, s2) \<Rightarrow> (errorResult (js ''Search failed: '' @ msg), s2)
                | (Inr out, s2) \<Rightarrow>
                    (textResult
                       (JSON_stringify w
                          (searchOutput (parseLines w (searchLines (stdout out))) p r)),
                     s2))))"

subsection \<open>metadata\<close>

record MetadataArgs =
  "identifier" :: jsstring

definition noMetadataMessage :: "jsstring \<Rightarrow> jsstring" where
  "noMetadataMessage ident =
     js ''No metadata found for '' @ [DQ] @ ident @ [DQ] @ js ''. The item may not exist.''"

definition handleMetadata :: "world \<Rightarrow> state \<Rightarrow> MetadataArgs \<Rightarrow> CallToolResult \<times> state" where
  "handleMetadata w s args =
     (case checkIaAvailable w s of
        (Inl e, s1) \<Rightarrow> (errorResult e, s1)
      | (Inr _, s1) \<Rightarrow>
          (case validateIdentifier (MetadataArgs.identifier args) of
             Inl msg \<Rightarrow> (errorResult (js ''Metadata retrieval failed: '' @ msg), s1)
           | Inr ident \<Rightarrow>
               (case runIa w s1 [js ''metadata'', ident] DEFAULT_TIMEOUT_MS of
                  (Inl msg, s2) \<Rightarrow> (errorResult (js ''Metadata retrieval failed: '' @ msg), s2)
                | (Inr out, s2) \<Rightarrow>
                    (let trimmed = trim (stdout out) in
                     if trimmed = [] then (errorResult (noMetadataMessage ident), s2)
                     else (case JSON_parse w trimmed of
                             Inl msg \<Rightarrow>
                               (errorResult (js ''Metadata retrieval failed: '' @ msg), s2)
                           | Inr parsed \<Rightarrow> (textResult (JSON_stringify w parsed), s2))))))"

subsection \<open>list\<close>

record ListArgs =
  "identifier" :: jsstring

definition noFilesMessage :: "jsstring \<Rightarrow> jsstring" where
  "noFilesMessage ident =
     js ''No files found for '' @ [DQ] @ ident @ [DQ] @ js ''. The item may not exist.''"

definition handleList :: "world \<Rightarrow> state \<Rightarrow> ListArgs \<Rightarrow> CallToolResult \<times> state" where
  "handleList w s args =
     (case checkIaAvailable w s of
        (Inl e, s1) \<Rightarrow> (errorResult e, s1)
      | (Inr _, s1) \<Rightarrow>
          (case validateIdentifier (ListArgs.identifier args) of
             Inl msg \<Rightarrow> (errorResult (js ''List failed: '' @ msg), s1)
           | Inr ident \<Rightarrow>
               (case runIa w s1 [js ''list'', ident, js ''--all'', js ''--verbose'']
                       DEFAULT_TIMEOUT_MS of
                  (Inl msg, s2) \<Rightarrow> (errorResult (js ''List failed: '' @ msg), s2)
                | (Inr out, s2) \<Rightarrow>
                    (let trimmed = trim (stdout out) in
                     if trimmed = [] then (errorResult (noFilesMessage ident), s2)
                     else (textResult
                             (js ''Files in '' @ [DQ] @ ident @ [DQ] @ js '':'' @ [LF, LF] @
                              trimmed),
                           s2)))))"

subsection \<open>download\<close>

record DownloadArgs =
  "identifier" :: jsstring
  glob :: "jsstring option"
  destdir :: "jsstring option"
  format :: "jsstring option"
  dry_run :: "bool option"

text \<open>Truthiness of the optional flag: \<open>undefined\<close> and \<open>false\<close> are falsy.\<close>

definition truthyBool :: "bool option \<Rightarrow> bool" where
  "truthyBool b = (b = Some True)"

text \<open>
  One optional parameter of \<open>handleDownload\<close>: when truthy it is validated and pushed
  after its flag, otherwise the vector is left as it is.
\<close>

definition pushOption :: "jsstring list \<Rightarrow> jsstring \<Rightarrow> jsstring option \<Rightarrow>
    (jsstring \<Rightarrow> jsstring + jsstring) \<Rightarrow> jsstring + jsstring list" where
  "pushOption iaArgs flag arg validate =
     (if truthyString arg then
        (case validate (the arg) of
           Inl e \<Rightarrow> Inl e
         | Inr v \<Rightarrow> Inr (iaArgs @ [flag, v]))
      else Inr iaArgs)"

text \<open>The validation and the argument vector of \<open>handleDownload\<close>, with the validated identifier.\<close>

definition downloadArgv :: "DownloadArgs \<Rightarrow> jsstring + (jsstring list \<times> jsstring)" where
  "downloadArgv args =
     andThen (validateIdentifier (DownloadArgs.identifier args)) (\<lambda>ident.
     andThen (pushOption [js ''download'', ident] (js ''--glob'') (glob args) validateGlob) (\<lambda>a1.
     andThen (pushOption a1 (js ''--destdir'') (destdir args) validateDestdir) (\<lambda>a2.
     andThen (pushOption a2 (js ''--format'') (format args) validateFormat) (\<lambda>a3.
     Inr (if truthyBool (dry_run args) then a3 @ [js ''--dry-run''] else a3, ident)))))"

text \<open>\<open>[stdout, stderr].filter(Boolean).join("\n").trim()\<close>.\<close>

definition downloadOutput :: "IaResult \<Rightarrow> jsstring" where
  "downloadOutput out = trim (joinWith [LF] (filterBoolean [stdout out, stderr out]))"

definition noOutputMessage :: "jsstring \<Rightarrow> jsstring" where
  "noOutputMessage ident =
     js ''Download completed for '' @ [DQ] @ ident @ [DQ] @ js '' (no output '' @ [EMDASH] @
     js '' files may already exist).''"

definition dryRunPrefix :: "jsstring \<Rightarrow> jsstring" where
  "dryRunPrefix ident = js ''Dry run for '' @ [DQ] @ ident @ [DQ] @ js '':'' @ [LF]"

definition completedPrefix :: "jsstring \<Rightarrow> jsstring" where
  "completedPrefix ident = js ''Download completed for '' @ [DQ] @ ident @ [DQ] @ js '':'' @ [LF]"

definition handleDownload :: "world \<Rightarrow> state \<Rightarrow> DownloadArgs \<Rightarrow> CallToolResult \<times> state" where
  "handleDownload w s args =
     (case checkIaAvailable w s of
        (Inl e, s1) \<Rightarrow> (errorResult e, s1)
      | (Inr _, s1) \<Rightarrow>
          (case downloadArgv args of
             Inl msg \<Rightarrow> (errorResult (js ''Download failed: '' @ msg), s1)
           | Inr (iaArgs, ident) \<Rightarrow>
               (case runIa w s1 iaArgs DOWNLOAD_TIMEOUT_MS of
                  (Inl msg, s2) \<Rightarrow> (errorResult (js ''Download failed: '' @ msg), s2)
                | (Inr out, s2) \<Rightarrow>
                    (let output = downloadOutput out in
                     if output = [] then (textResult (noOutputMessage ident), s2)
                     else (textResult
                             ((if truthyBool (dry_run args) then dryRunPrefix ident
                               else completedPrefix ident) @ output),
                           s2)))))"

section \<open>Sample environments\<close>

text \<open>
  Concrete environments on which the theorems below are instantiated. The stand-ins for
  the runtime's JSON functions accept and print a small fragment only; the theorems
  themselves hold for every environment.
\<close>

definition initialState :: state where
  "initialState = \<lparr>resolvedIa = None, consoleErrors = []\<rparr>"

definition sampleParse :: "jsstring \<Rightarrow> jsstring + json" where
  "sampleParse s =
     (if s = js ''{}'' then Inr (JObject [])
      else if s = js ''[]'' then Inr (JArray [])
      else if s = js ''null'' then Inr JNull
      else Inl (js ''Unexpected token''))"

fun compactJson :: "json \<Rightarrow> jsstring" where
  "compactJson JNull = js ''null''"
| "compactJson (JBool b) = (if b then js ''true'' else js ''false'')"
| "compactJson (JNumber n) = numberToString (\<lambda>_. js ''?'') n"
| "compactJson (JString s) = [DQ] @ s @ [DQ]"
| "compactJson (JArray vs) = js ''['' @ joinWith (js '','') (map compactJson vs) @ js '']''"
| "compactJson (JObject kvs) =
     js ''{'' @
     joinWith (js '','') (map (\<lambda>kv. [DQ] @ fst kv @ [DQ] @ js '':'' @ compactJson (snd kv)) kvs) @
     js ''}''"

definition sampleVersion :: IaResult where
  "sampleVersion = \<lparr>stdout = js ''5.0.0'' @ [LF], stderr = []\<rparr>"

definition spawnFailure :: ExecError where
  "spawnFailure = ExecError False None (Some (js ''spawn ia ENOENT'')) (js ''Error: spawn ia ENOENT'')"

definition killedFailure :: ExecError where
  "killedFailure = ExecError True (Some []) (Some (js ''Command failed'')) (js ''Error: Command failed'')"

text \<open>An environment with an empty file system, given its platform and what child processes do.\<close>

definition sampleWorld :: "bool \<Rightarrow> (jsstring \<Rightarrow> jsstring list \<Rightarrow> ExecError + IaResult) \<Rightarrow> world" where
  "sampleWorld windows run =
     \<lparr>IS_WINDOWS = windows,
      execFile = (\<lambda>cmd args opts. run cmd args),
      env = (\<lambda>_. None),
      existsSync = (\<lambda>_. False),
      readFileSync = (\<lambda>_. Inl (js ''ENOENT'')),
      readdirSync = (\<lambda>_. Inl (js ''ENOENT'')),
      pathJoin = joinWith [BACKSLASH],
      JSON_parse = sampleParse,
      JSON_stringify = compactJson,
      Number_toString = (\<lambda>_. js ''?'')\<rparr>"

text \<open>The client answers the version probe and prints \<open>out\<close> for every other command.\<close>

definition answering :: "IaResult \<Rightarrow> jsstring \<Rightarrow> jsstring list \<Rightarrow> ExecError + IaResult" where
  "answering out cmd args = (if args = [js ''--version''] then Inr sampleVersion else Inr out)"

text \<open>The client answers the version probe and every other command fails with \<open>e\<close>.\<close>

definition failingWith :: "ExecError \<Rightarrow> jsstring \<Rightarrow> jsstring list \<Rightarrow> ExecError + IaResult" where
  "failingWith e cmd args = (if args = [js ''--version''] then Inr sampleVersion else Inl e)"

text \<open>No client is installed: every child process fails to spawn.\<close>

definition notInstalled :: "jsstring \<Rightarrow> jsstring list \<Rightarrow> ExecError + IaResult" where
  "notInstalled cmd args = Inl spawnFailure"

text \<open>Only the batch shim \<open>ia\<close> runs; the native \<open>ia.exe\<close> is not on the path.\<close>

definition shimOnly :: "jsstring \<Rightarrow> jsstring list \<Rightarrow> ExecError + IaResult" where
  "shimOnly cmd args = (if cmd = js ''ia'' then Inr sampleVersion else Inl spawnFailure)"

text \<open>Every command runs, the native executable included.\<close>

definition nativeOnPath :: "jsstring \<Rightarrow> jsstring list \<Rightarrow> ExecError + IaResult" where
  "nativeOnPath cmd args = Inr sampleVersion"

definition resolvedPosix :: state where
  "resolvedPosix =
     \<lparr>resolvedIa = Some \<lparr>command = js ''ia'', useShell = False\<rparr>, consoleErrors = []\<rparr>"

definition apolloArgs :: SearchArgs where
  "apolloArgs =
     \<lparr>query = js ''title:'' @ [DQ] @ js ''Apollo 11'' @ [DQ],
      fields' = None, rows = Some (Finite 2), page = Some (Finite 1)\<rparr>"

definition twoLines :: IaResult where
  "twoLines = \<lparr>stdout = js ''{oops'' @ [LF] @ js ''{}'' @ [LF], stderr = []\<rparr>"

definition blankOutput :: IaResult where
  "blankOutput = \<lparr>stdout = js ''  '' @ [LF], stderr = []\<rparr>"

definition oneDocument :: IaResult where
  "oneDocument = \<lparr>stdout = js ''{}'' @ [LF], stderr = []\<rparr>"

definition missingItem :: MetadataArgs where
  "missingItem = \<lparr>MetadataArgs.identifier = js ''nonexistent-item-xyz''\<rparr>"

definition silentOutput :: IaResult where
  "silentOutput = \<lparr>stdout = [], stderr = []\<rparr>"

definition dryRunStatus :: IaResult where
  "dryRunStatus = \<lparr>stdout = js ''item1: would download 3 files'', stderr = []\<rparr>"

definition dryRunItem1 :: DownloadArgs where
  "dryRunItem1 =
     \<lparr>identifier = js ''item1'', glob = None, destdir = None, format = None,
      dry_run = Some True\<rparr>"

definition hyphenArgs :: DownloadArgs where
  "hyphenArgs =
     \<lparr>identifier = js ''--help'', glob = Some (js ''-x''), destdir = None, format = None,
      dry_run = None\<rparr>"

definition usageText :: IaResult where
  "usageText = \<lparr>stdout = js ''usage: ia download'', stderr = []\<rparr>"

definition badIdentifier :: MetadataArgs where
  "badIdentifier = \<lparr>MetadataArgs.identifier = js ''bad id''\<rparr>"

definition listItem1 :: ListArgs where
  "listItem1 = \<lparr>ListArgs.identifier = js ''item1''\<rparr>"

definition newlineOnly :: IaResult where
  "newlineOnly = \<lparr>stdout = [LF], stderr = []\<rparr>"

section \<open>Evaluation of literals\<close>

lemmas char_evals = js_def ch_def LF_def CR_def DQ_def BACKSLASH_def EMDASH_def
lemmas class_evals = isWhiteSpace_def isLetter_def isDigit_def isIdentifierChar_def isGlobChar_def

section \<open>Validation\<close>

subsection \<open>Identifiers\<close>

lemma isl_validateIdentifier:
  "isl (validateIdentifier s) \<longleftrightarrow>
     trim s = [] \<or> 100 < length (trim s) \<or> (\<exists>c\<in>set (trim s). \<not> isIdentifierChar c)"
  by (auto simp: validateIdentifier_def Let_def matchesClassPlus_def list_all_iff)

lemma validateIdentifier_Inr:
  "validateIdentifier s = Inr t \<longleftrightarrow>
     t = trim s \<and> trim s \<noteq> [] \<and> length (trim s) \<le> 100 \<and> (\<forall>c\<in>set (trim s). isIdentifierChar c)"
  by (auto simp: validateIdentifier_def Let_def matchesClassPlus_def list_all_iff)

lemma isIdentifierChar_class:
  "isIdentifierChar c \<longleftrightarrow>
     c \<in> set (js ''abcdefghijklmnopqrstuvwxyzABCDEFGHIJKLMNOPQRSTUVWXYZ0123456789._-'')"
proof
  assume "c \<in> set (js ''abcdefghijklmnopqrstuvwxyzABCDEFGHIJKLMNOPQRSTUVWXYZ0123456789._-'')"
  then show "isIdentifierChar c"
    by (auto simp: char_evals class_evals)
next
  assume a: "isIdentifierChar c"
  have enum: "l \<le> c \<Longrightarrow> c \<le> h \<Longrightarrow> c \<in> of_nat ` set [unat l..<Suc (unat h)]" for l h :: "16 word"
  proof -
    assume "l \<le> c" "c \<le> h"
    then have "unat c \<in> set [unat l..<Suc (unat h)]" by (auto simp: word_le_nat_alt)
    then have "of_nat (unat c) \<in> (of_nat ` set [unat l..<Suc (unat h)] :: 16 word set)" by (rule imageI)
    then show ?thesis by simp
  qed
  from a consider "ch CHR ''a'' \<le> c \<and> c \<le> ch CHR ''z''" | "ch CHR ''A'' \<le> c \<and> c \<le> ch CHR ''Z''"
    | "ch CHR ''0'' \<le> c \<and> c \<le> ch CHR ''9''" | "c = ch CHR ''.'' \<or> c = ch CHR ''_'' \<or> c = ch CHR ''-''"
    by (auto simp: class_evals)
  then show "c \<in> set (js ''abcdefghijklmnopqrstuvwxyzABCDEFGHIJKLMNOPQRSTUVWXYZ0123456789._-'')"
  proof cases
    case 1
    then have "c \<in> of_nat ` set [unat (ch CHR ''a'')..<Suc (unat (ch CHR ''z''))]" using enum by blast
    then show ?thesis by (simp add: char_evals upt_rec) (auto)
  next
    case 2
    then have "c \<in> of_nat ` set [unat (ch CHR ''A'')..<Suc (unat (ch CHR ''Z''))]" using enum by blast
    then show ?thesis by (simp add: char_evals upt_rec) (auto)
  next
    case 3
    then have "c \<in> of_nat ` set [unat (ch CHR ''0'')..<Suc (unat (ch CHR ''9''))]" using enum by blast
    then show ?thesis by (simp add: char_evals upt_rec) (auto)
  next
    case 4
    then show ?thesis by (auto simp: char_evals)
  qed
qed

lemma trim_padded_identifier: "trim (js '' item_1.v-2 '') = js ''item_1.v-2''"
  by (simp add: trim_def char_evals class_evals)

lemma trim_spaced_identifier: "trim (js ''bad id'') = js ''bad id''"
  by (simp add: trim_def char_evals class_evals)

lemma trim_blank: "trim (js ''   '') = []"
  by (simp add: trim_def char_evals class_evals)

text \<open>
  Claim C3. Identifier validation fails whenever the trimmed identifier has a code unit
  outside the class of ASCII letters, digits, period, underscore and hyphen; it returns the
  trimmed identifier unchanged whenever that is non-empty, at most 100 code units long and
  drawn from the class only; and it fails when the trimmed identifier is empty or longer
  than 100 code units. The class is listed character by character in the last part.
\<close>

theorem validateIdentifier_spec:
  "((\<exists>c\<in>set (trim s). \<not> isIdentifierChar c) \<longrightarrow> isl (validateIdentifier s)) \<and>
   (trim s \<noteq> [] \<and> length (trim s) \<le> 100 \<and> (\<forall>c\<in>set (trim s). isIdentifierChar c)
      \<longrightarrow> validateIdentifier s = Inr (trim s)) \<and>
   (trim s = [] \<or> 100 < length (trim s) \<longrightarrow> isl (validateIdentifier s)) \<and>
   (\<forall>c. isIdentifierChar c \<longleftrightarrow>
      c \<in> set (js ''abcdefghijklmnopqrstuvwxyzABCDEFGHIJKLMNOPQRSTUVWXYZ0123456789._-''))"
proof (intro conjI allI)
  show "(\<exists>c\<in>set (trim s). \<not> isIdentifierChar c) \<longrightarrow> isl (validateIdentifier s)"
    by (simp add: isl_validateIdentifier)
  show "trim s \<noteq> [] \<and> length (trim s) \<le> 100 \<and> (\<forall>c\<in>set (trim s). isIdentifierChar c)
      \<longrightarrow> validateIdentifier s = Inr (trim s)"
    by (simp add: validateIdentifier_Inr)
  show "trim s = [] \<or> 100 < length (trim s) \<longrightarrow> isl (validateIdentifier s)"
    by (auto simp: isl_validateIdentifier)
  show "isIdentifierChar c \<longleftrightarrow>
      c \<in> set (js ''abcdefghijklmnopqrstuvwxyzABCDEFGHIJKLMNOPQRSTUVWXYZ0123456789._-'')" for c
    by (rule isIdentifierChar_class)
qed

theorem validateIdentifier_spec_witness:
  "isl (validateIdentifier (js ''bad id'')) \<and>
   validateIdentifier (js '' item_1.v-2 '') = Inr (js ''item_1.v-2'') \<and>
   isl (validateIdentifier (js ''   ''))"
proof -
  have a: "\<exists>c\<in>set (trim (js ''bad id'')). \<not> isIdentifierChar c"
    unfolding trim_spaced_identifier by (simp add: char_evals class_evals)
  have b: "trim (js '' item_1.v-2 '') \<noteq> [] \<and> length (trim (js '' item_1.v-2 '')) \<le> 100 \<and>
           (\<forall>c\<in>set (trim (js '' item_1.v-2 '')). isIdentifierChar c)"
    unfolding trim_padded_identifier by (simp add: char_evals class_evals)
  have c: "trim (js ''   '') = [] \<or> 100 < length (trim (js ''   ''))"
    by (simp add: trim_blank)
  have "isl (validateIdentifier (js ''bad id''))"
    by (rule validateIdentifier_spec [of "js ''bad id''", THEN conjunct1, rule_format, OF a])
  moreover have "validateIdentifier (js '' item_1.v-2 '') = Inr (trim (js '' item_1.v-2 ''))"
    by (rule validateIdentifier_spec [of "js '' item_1.v-2 ''", THEN conjunct2, THEN conjunct1,
          rule_format, OF b])
  moreover have "isl (validateIdentifier (js ''   ''))"
    by (rule validateIdentifier_spec [of "js ''   ''", THEN conjunct2, THEN conjunct2,
          THEN conjunct1, rule_format, OF c])
  ultimately show ?thesis by (simp only: trim_padded_identifier simp_thms)
qed

subsection \<open>Row count\<close>

lemma isInt_iff: "Number_isInteger r \<longleftrightarrow> (\<exists>n::int. r = Finite (of_int n))"
proof (cases r)
  case (Finite x)
  show ?thesis
  proof
    assume "Number_isInteger r"
    with Finite have "of_int \<lfloor>x\<rfloor> = x" by (simp only: Number_isInteger.simps)
    then have "r = Finite (of_int \<lfloor>x\<rfloor>)" by (simp only: Finite)
    then show "\<exists>n::int. r = Finite (of_int n)" ..
  next
    assume "\<exists>n::int. r = Finite (of_int n)"
    then obtain n :: int where "r = Finite (of_int n)" ..
    then show "Number_isInteger r" by simp
  qed
qed simp_all

lemma validateRows_Inr:
  "validateRows r = Inr r' \<longleftrightarrow>
      r' = r \<and> (\<exists>n::int. 1 \<le> n \<and> n \<le> 10000 \<and> r = Finite (of_int n))"
proof (cases "Number_isInteger r")
  case True
  then obtain n :: int where n: "r = Finite (of_int n)" by (auto simp: isInt_iff)
  show ?thesis by (auto simp: validateRows_def n)
next
  case False
  then show ?thesis by (auto simp: validateRows_def isInt_iff)
qed

lemma isl_validateRows:
  "isl (validateRows r) \<longleftrightarrow> \<not> (\<exists>n::int. 1 \<le> n \<and> n \<le> 10000 \<and> r = Finite (of_int n))"
proof -
  have "isl (validateRows r) \<longleftrightarrow> validateRows r \<noteq> Inr r"
    by (simp add: validateRows_def)
  then show ?thesis by (simp add: validateRows_Inr)
qed

text \<open>
  Claim C8. Row-count validation succeeds exactly for the integers from 1 to 10000 and
  returns the value unchanged: 1 and 10000 succeed, while 0, 10001, 3.5 and every other
  non-integer or out-of-range number fail.
\<close>

theorem validateRows_spec:
  "(validateRows r = Inr r' \<longleftrightarrow>
      r' = r \<and> (\<exists>n::int. 1 \<le> n \<and> n \<le> 10000 \<and> r = Finite (of_int n))) \<and>
   (isl (validateRows r) \<longleftrightarrow> \<not> (\<exists>n::int. 1 \<le> n \<and> n \<le> 10000 \<and> r = Finite (of_int n))) \<and>
   validateRows (Finite 1) = Inr (Finite 1) \<and>
   validateRows (Finite 10000) = Inr (Finite 10000) \<and>
   isl (validateRows (Finite 0)) \<and>
   isl (validateRows (Finite 10001)) \<and>
   isl (validateRows (Finite 3.5))"
proof -
  have "validateRows (Finite 1) = Inr (Finite 1)" by (simp add: validateRows_def)
  moreover have "validateRows (Finite 10000) = Inr (Finite 10000)" by (simp add: validateRows_def)
  moreover have "isl (validateRows (Finite 0))" by (simp add: validateRows_def)
  moreover have "isl (validateRows (Finite 10001))" by (simp add: validateRows_def)
  moreover have "isl (validateRows (Finite 3.5))" by (simp add: validateRows_def)
  ultimately show ?thesis by (simp only: validateRows_Inr isl_validateRows simp_thms)
qed

theorem validateRows_spec_witness:
  "validateRows (Finite 50) = Inr (Finite 50) \<and> isl (validateRows (Finite 2.5)) \<and> isl (validateRows NaN)"
proof -
  have a: "\<exists>n::int. 1 \<le> n \<and> n \<le> 10000 \<and> Finite 50 = Finite (of_int n)"
    by (rule exI [of _ 50]) simp
  have b: "isl (validateRows (Finite 2.5))" by (simp add: validateRows_def)
  have c: "isl (validateRows NaN)" by (simp add: validateRows_def)
  from validateRows_spec [of "Finite 50" "Finite 50"] a b c show ?thesis by simp
qed

section \<open>Executable resolution is memoized\<close>

lemma resolve_cached:
  "resolvedIa s = Some r \<Longrightarrow> resolveIaExecutable w s = (Inr r, s)"
  by (simp add: resolveIaExecutable_def)

lemma remember_Inr:
  "remember r0 s = (Inr r, s') \<Longrightarrow> resolvedIa s' = Some r"
  by (auto simp: remember_def)

lemma viaPipOrShell_Inr:
  "viaPipOrShell w s = (Inr r, s') \<Longrightarrow> resolvedIa s' = Some r"
  by (auto simp: viaPipOrShell_def dest: remember_Inr split: option.splits)

lemma resolve_sets_cache:
  assumes "resolveIaExecutable w s = (Inr r, s')"
  shows "resolvedIa s' = Some r"
proof (cases "resolvedIa s")
  case (Some r0)
  with assms show ?thesis by (simp add: resolveIaExecutable_def)
next
  case None
  with assms show ?thesis
    by (auto simp: resolveIaExecutable_def Let_def
             dest: remember_Inr viaPipOrShell_Inr
             split: if_splits sum.splits option.splits)
qed

lemma runIa_state: "snd (runIa w s args t) = snd (resolveIaExecutable w s)"
  by (simp add: runIa_def split: prod.splits sum.splits)

lemma checkIaAvailable_state: "snd (checkIaAvailable w s) = snd (resolveIaExecutable w s)"
  by (simp add: checkIaAvailable_def split: prod.splits sum.splits)

lemma runIa_resolved:
  assumes "resolveIaExecutable w s = (Inr r, s')"
  shows "runIa w s args t =
           (case execFile w (command r) args
                   \<lparr>timeout = t, maxBuffer = Some (50 * 1024 * 1024), shell = useShell r\<rparr> of
              Inr out \<Rightarrow> (Inr \<lparr>stdout = stdout out, stderr = stderr out\<rparr>, s')
            | Inl error \<Rightarrow>
                (if killed error then (Inl (timeoutMessage w args t), s')
                 else (Inl (js ''ia command failed: '' @ failureText error), s')))"
  using assms by (simp add: runIa_def split: sum.splits)

text \<open>
  Claim C6. Once a resolution has returned a pair, the pair is cached: resolving again, in
  whatever environment, returns the same pair and leaves the module state as it is, so
  nothing is probed or logged again; and neither an invocation (whether it succeeds or
  fails) nor an availability check changes the state, so every later invocation runs the
  same command in the same mode.
\<close>

theorem resolveIaExecutable_memoized:
  assumes "resolveIaExecutable w s = (Inr r, s')"
  shows "resolvedIa s' = Some r \<and>
         (\<forall>w'. resolveIaExecutable w' s' = (Inr r, s')) \<and>
         (\<forall>w' args t. snd (runIa w' s' args t) = s') \<and>
         (\<forall>w'. snd (checkIaAvailable w' s') = s') \<and>
         (\<forall>w' args t.
            runIa w' s' args t =
              (case execFile w' (command r) args
                      \<lparr>timeout = t, maxBuffer = Some (50 * 1024 * 1024), shell = useShell r\<rparr> of
                 Inr out \<Rightarrow> (Inr \<lparr>stdout = stdout out, stderr = stderr out\<rparr>, s')
               | Inl error \<Rightarrow>
                   (if killed error then (Inl (timeoutMessage w' args t), s')
                    else (Inl (js ''ia command failed: '' @ failureText error), s'))))"
proof -
  have cached: "resolvedIa s' = Some r"
    using assms by (rule resolve_sets_cache)
  then have again: "resolveIaExecutable w' s' = (Inr r, s')" for w'
    by (rule resolve_cached)
  have "snd (runIa w' s' args t) = s'" for w' args t
    by (simp add: runIa_state again)
  moreover have "snd (checkIaAvailable w' s') = s'" for w'
    by (simp add: checkIaAvailable_state again)
  moreover note runIa_resolved [OF again]
  ultimately show ?thesis using cached again by blast
qed

lemma sample_selectors [simp]:
  "IS_WINDOWS (sampleWorld windows run) = windows"
  "execFile (sampleWorld windows run) = (\<lambda>cmd args opts. run cmd args)"
  "env (sampleWorld windows run) = (\<lambda>_. None)"
  "existsSync (sampleWorld windows run) = (\<lambda>_. False)"
  "JSON_parse (sampleWorld windows run) = sampleParse"
  "JSON_stringify (sampleWorld windows run) = compactJson"
  "Number_toString (sampleWorld windows run) = (\<lambda>_. js ''?'')"
  by (simp_all add: sampleWorld_def)

lemma probeBases_nothing_exists:
  "existsSync w = (\<lambda>_. False) \<Longrightarrow> probeBases w bases = None"
  by (induction bases) (simp_all add: probeBase_def)

lemma resolve_shim_world:
  "resolveIaExecutable (sampleWorld True shimOnly) initialState =
     (Inr \<lparr>command = js ''ia'', useShell = True\<rparr>,
      \<lparr>resolvedIa = Some \<lparr>command = js ''ia'', useShell = True\<rparr>,
       consoleErrors = [shellWarning]\<rparr>)"
  by (simp add: resolveIaExecutable_def initialState_def shimOnly_def viaPipOrShell_def
        remember_def probeBases_nothing_exists js_def ch_def)

theorem resolveIaExecutable_memoized_witness:
  "resolveIaExecutable (sampleWorld True shimOnly) initialState =
     (Inr \<lparr>command = js ''ia'', useShell = True\<rparr>,
      \<lparr>resolvedIa = Some \<lparr>command = js ''ia'', useShell = True\<rparr>,
       consoleErrors = [shellWarning]\<rparr>) \<and>
   resolveIaExecutable (sampleWorld True nativeOnPath)
     \<lparr>resolvedIa = Some \<lparr>command = js ''ia'', useShell = True\<rparr>,
      consoleErrors = [shellWarning]\<rparr> =
     (Inr \<lparr>command = js ''ia'', useShell = True\<rparr>,
      \<lparr>resolvedIa = Some \<lparr>command = js ''ia'', useShell = True\<rparr>,
       consoleErrors = [shellWarning]\<rparr>) \<and>
   snd (runIa (sampleWorld True notInstalled)
          \<lparr>resolvedIa = Some \<lparr>command = js ''ia'', useShell = True\<rparr>,
           consoleErrors = [shellWarning]\<rparr> [js ''metadata'', js ''item1''] DEFAULT_TIMEOUT_MS) =
     \<lparr>resolvedIa = Some \<lparr>command = js ''ia'', useShell = True\<rparr>,
      consoleErrors = [shellWarning]\<rparr>"
proof -
  note memo = resolveIaExecutable_memoized [OF resolve_shim_world]
  from memo have again:
    "resolveIaExecutable (sampleWorld True nativeOnPath)
       \<lparr>resolvedIa = Some \<lparr>command = js ''ia'', useShell = True\<rparr>,
        consoleErrors = [shellWarning]\<rparr> =
       (Inr \<lparr>command = js ''ia'', useShell = True\<rparr>,
        \<lparr>resolvedIa = Some \<lparr>command = js ''ia'', useShell = True\<rparr>,
         consoleErrors = [shellWarning]\<rparr>)"
    by blast
  from memo have after_failure:
    "snd (runIa (sampleWorld True notInstalled)
            \<lparr>resolvedIa = Some \<lparr>command = js ''ia'', useShell = True\<rparr>,
             consoleErrors = [shellWarning]\<rparr> [js ''metadata'', js ''item1''] DEFAULT_TIMEOUT_MS) =
       \<lparr>resolvedIa = Some \<lparr>command = js ''ia'', useShell = True\<rparr>,
        consoleErrors = [shellWarning]\<rparr>"
    by blast
  from resolve_shim_world again after_failure show ?thesis by (intro conjI)
qed

section \<open>Timeouts\<close>

lemma joinWith_starts_with_hd:
  "xs \<noteq> [] \<Longrightarrow> \<exists>rest. joinWith sep xs = hd xs @ rest"
  by (cases "(sep, xs)" rule: joinWith.cases) auto

lemma whole_seconds:
  assumes "1000 * k < 2 ^ 53"
  shows "numberToString other (divideBy (Finite (1000 * real k)) 1000) = digitsOf k"
proof -
  from assms have "k < 2 ^ 53" by simp
  then show ?thesis by simp
qed

lemma digitsOf_120: "digitsOf 120 = js ''120''"
  by (simp add: digitsOf.simps char_evals)

lemma digitsOf_600: "digitsOf 600 = js ''600''"
  by (simp add: digitsOf.simps char_evals)

lemma default_seconds:
  "numberToString other (divideBy DEFAULT_TIMEOUT_MS 1000) = js ''120''"
  using whole_seconds [of 120 other] by (simp add: DEFAULT_TIMEOUT_MS_def digitsOf_120)

lemma download_seconds:
  "numberToString other (divideBy DOWNLOAD_TIMEOUT_MS 1000) = js ''600''"
  using whole_seconds [of 600 other] by (simp add: DOWNLOAD_TIMEOUT_MS_def digitsOf_600)

lemma timeoutMessage_seconds:
  "sublist (numberToString (Number_toString w) (divideBy t 1000)) (timeoutMessage w args t)"
  unfolding timeoutMessage_def by (rule sublist_appendI)

lemma timeoutMessage_subcommand:
  assumes "args \<noteq> []"
  shows "sublist (hd args) (timeoutMessage w args t)"
proof -
  from assms obtain rest where "joinWith (js '' '') args = hd args @ rest"
    using joinWith_starts_with_hd by blast
  then have "timeoutMessage w args t =
      (js ''ia command timed out after '' @ numberToString (Number_toString w) (divideBy t 1000) @
       js '' seconds. '' @ js ''Command: ia '') @ hd args @ rest"
    by (simp add: timeoutMessage_def)
  then show ?thesis by (simp only: sublist_appendI)
qed

text \<open>
  Claim C5. When the child process of an invocation is killed on its timeout, the invoker
  fails with the timeout message. The message contains the timeout divided by 1000 as the
  runtime prints it (for a whole number of seconds and a timeout below \<open>2^53\<close>
  milliseconds, the decimal digits of the seconds: 120 for the default and 600 for the
  download timeout), and the command that was run, which begins with the subcommand, the
  first element of the argument vector.
\<close>

theorem runIa_timeout:
  assumes "resolveIaExecutable w s = (Inr r, s')"
    and "execFile w (command r) args
           \<lparr>timeout = timeoutMs, maxBuffer = Some (50 * 1024 * 1024), shell = useShell r\<rparr> = Inl error"
    and "killed error"
  shows "runIa w s args timeoutMs = (Inl (timeoutMessage w args timeoutMs), s') \<and>
         timeoutMessage w args timeoutMs =
           js ''ia command timed out after '' @
           numberToString (Number_toString w) (divideBy timeoutMs 1000) @
           js '' seconds. Command: ia '' @ joinWith (js '' '') args \<and>
         sublist (numberToString (Number_toString w) (divideBy timeoutMs 1000))
           (timeoutMessage w args timeoutMs) \<and>
         (args \<noteq> [] \<longrightarrow> sublist (hd args) (timeoutMessage w args timeoutMs)) \<and>
         (\<forall>k::nat. timeoutMs = Finite (1000 * real k) \<and> 1000 * k < 2 ^ 53 \<longrightarrow>
            numberToString (Number_toString w) (divideBy timeoutMs 1000) = digitsOf k) \<and>
         (timeoutMs = DEFAULT_TIMEOUT_MS \<longrightarrow>
            numberToString (Number_toString w) (divideBy timeoutMs 1000) = js ''120'') \<and>
         (timeoutMs = DOWNLOAD_TIMEOUT_MS \<longrightarrow>
            numberToString (Number_toString w) (divideBy timeoutMs 1000) = js ''600'')"
proof -
  have "runIa w s args timeoutMs = (Inl (timeoutMessage w args timeoutMs), s')"
    using assms by (simp add: runIa_resolved)
  moreover have "timeoutMessage w args timeoutMs =
           js ''ia command timed out after '' @
           numberToString (Number_toString w) (divideBy timeoutMs 1000) @
           js '' seconds. Command: ia '' @ joinWith (js '' '') args"
    by (simp add: timeoutMessage_def js_def)
  moreover have "\<forall>k::nat. timeoutMs = Finite (1000 * real k) \<and> 1000 * k < 2 ^ 53 \<longrightarrow>
            numberToString (Number_toString w) (divideBy timeoutMs 1000) = digitsOf k"
    using whole_seconds by blast
  ultimately show ?thesis
    using timeoutMessage_seconds [of w timeoutMs args] timeoutMessage_subcommand [of args w timeoutMs]
      default_seconds download_seconds
    by blast
qed

lemma resolve_posix:
  "resolveIaExecutable (sampleWorld False run) initialState =
     (Inr \<lparr>command = js ''ia'', useShell = False\<rparr>, resolvedPosix)"
  by (simp add: resolveIaExecutable_def initialState_def remember_def resolvedPosix_def)

theorem runIa_timeout_witness:
  "runIa (sampleWorld False (failingWith killedFailure)) initialState
     [js ''metadata'', js ''item1''] DEFAULT_TIMEOUT_MS =
     (Inl (js ''ia command timed out after 120 seconds. Command: ia metadata item1''),
      resolvedPosix)"
proof -
  have failed: "execFile (sampleWorld False (failingWith killedFailure))
           (command \<lparr>command = js ''ia'', useShell = False\<rparr>) [js ''metadata'', js ''item1'']
           \<lparr>timeout = DEFAULT_TIMEOUT_MS, maxBuffer = Some (50 * 1024 * 1024),
            shell = useShell \<lparr>command = js ''ia'', useShell = False\<rparr>\<rparr> = Inl killedFailure"
    by (simp add: failingWith_def char_evals)
  have was_killed: "killed killedFailure"
    by (simp add: killedFailure_def)
  from runIa_timeout [OF resolve_posix failed was_killed]
  show ?thesis by (simp add: js_def)
qed

section \<open>Search output\<close>

subsection \<open>Splitting, joining and trimming\<close>

lemma splitOn_not_Nil [simp]: "splitOn sep xs \<noteq> []"
  by (induction xs) (auto split: list.splits)

lemma splitOn_no_sep: "sep \<notin> set l \<Longrightarrow> splitOn sep l = [l]"
  by (induction l) auto

lemma splitOn_append_sep:
  "sep \<notin> set l \<Longrightarrow> splitOn sep (l @ sep # rest) = l # splitOn sep rest"
  by (induction l) (auto split: list.splits)

lemma splitOn_joinWith:
  "ls \<noteq> [] \<Longrightarrow> \<forall>l\<in>set ls. sep \<notin> set l \<Longrightarrow> splitOn sep (joinWith [sep] ls) = ls"
proof (induction "[sep]" ls rule: joinWith.induct)
  case 1
  then show ?case by simp
next
  case (2 x)
  then show ?case by (simp add: splitOn_no_sep)
next
  case (3 x y ys)
  then show ?case by (simp add: splitOn_append_sep)
qed

lemma dropWhile_all: "\<forall>x\<in>set xs. P x \<Longrightarrow> dropWhile P (xs @ ys) = dropWhile P ys"
  by (induction xs) auto

lemma trim_core:
  assumes "list_all isWhiteSpace pre" and "list_all isWhiteSpace post"
    and "core \<noteq> []" and "\<not> isWhiteSpace (hd core)" and "\<not> isWhiteSpace (last core)"
  shows "trim (pre @ core @ post) = core"
proof -
  from assms(3) obtain c cs where core: "core = c # cs" by (cases core) auto
  from assms(3) obtain bs b where core': "core = bs @ [b]" by (cases core rule: rev_cases) auto
  have "dropWhile isWhiteSpace (pre @ core @ post) = core @ post"
    using assms(1,4) by (simp add: core list_all_iff dropWhile_all)
  moreover have "dropWhile isWhiteSpace (rev (core @ post)) = rev core"
    using assms(2,5) by (simp add: core' list_all_iff dropWhile_all)
  ultimately show ?thesis by (simp add: trim_def)
qed

lemma trim_Nil [simp]: "trim [] = []"
  by (simp add: trim_def)

subsection \<open>Search\<close>

lemma parseLines_filter:
  "parseLines w ls = map projr (filter (\<lambda>x. \<not> isl x) (map (JSON_parse w) ls))"
  by (induction ls) (auto split: sum.splits)

lemma handleSearch_ok:
  assumes "checkIaAvailable w s = (Inr v, s1)"
    and "searchArgv w args = Inr (iaArgs, p, r)"
    and "runIa w s1 iaArgs DEFAULT_TIMEOUT_MS = (Inr out, s2)"
  shows "handleSearch w s args =
           (textResult (JSON_stringify w
              (searchOutput (parseLines w (searchLines (stdout out))) p r)), s2)"
  using assms by (simp add: handleSearch_def)

lemma searchLines_joined:
  assumes "list_all isWhiteSpace pre" and "list_all isWhiteSpace post"
    and "ls \<noteq> []" and "\<forall>l\<in>set ls. LF \<notin> set l"
    and "hd ls \<noteq> []" and "\<not> isWhiteSpace (hd (hd ls))"
    and "last ls \<noteq> []" and "\<not> isWhiteSpace (last (last ls))"
  shows "searchLines (pre @ joinWith [LF] ls @ post) = filter (\<lambda>l. l \<noteq> []) ls"
proof -
  have hd_join: "joinWith [LF] ls \<noteq> [] \<and> hd (joinWith [LF] ls) = hd (hd ls)"
    using assms(3,5) by (cases "([LF], ls)" rule: joinWith.cases) auto
  have last_join: "ms \<noteq> [] \<Longrightarrow> last ms \<noteq> [] \<Longrightarrow>
      joinWith [LF] ms \<noteq> [] \<and> last (joinWith [LF] ms) = last (last ms)" for ms
    by (induction "[LF]" ms rule: joinWith.induct) auto
  have "trim (pre @ joinWith [LF] ls @ post) = joinWith [LF] ls"
    using assms(1,2,6,8) hd_join last_join [OF assms(3,7)] by (intro trim_core) simp_all
  then show ?thesis
    using assms(3,4) by (simp add: searchLines_def filterBoolean_def splitOn_joinWith)
qed

lemma resolve_posix_again:
  "resolveIaExecutable w resolvedPosix =
     (Inr \<lparr>command = js ''ia'', useShell = False\<rparr>, resolvedPosix)"
  by (simp add: resolveIaExecutable_def resolvedPosix_def)

lemma version_trimmed: "trim (stdout sampleVersion) = js ''5.0.0''"
  by (simp add: sampleVersion_def trim_def char_evals class_evals)

lemma available_answering:
  "checkIaAvailable (sampleWorld False (answering out)) initialState =
     (Inr (js ''5.0.0''), resolvedPosix)"
  by (simp add: checkIaAvailable_def resolve_posix answering_def version_trimmed)

lemma available_failingWith:
  "checkIaAvailable (sampleWorld False (failingWith e)) initialState =
     (Inr (js ''5.0.0''), resolvedPosix)"
  by (simp add: checkIaAvailable_def resolve_posix failingWith_def version_trimmed)

lemma runIa_answering:
  "args \<noteq> [js ''--version''] \<Longrightarrow>
   runIa (sampleWorld False (answering out)) resolvedPosix args t =
     (Inr \<lparr>stdout = stdout out, stderr = stderr out\<rparr>, resolvedPosix)"
  by (simp add: runIa_def resolve_posix_again answering_def)

lemma apollo_argv:
  "searchArgv (sampleWorld False run) apolloArgs =
     Inr ([js ''search'', js ''title:'' @ [DQ] @ js ''Apollo 11'' @ [DQ], js ''--parameters'',
           js ''page=1&rows=2''], Finite 1, Finite 2)"
  by (simp add: searchArgv_def apolloArgs_def andThen_def validateQuery_def validateRows_def
        validatePage_def trim_def digitsOf.simps char_evals class_evals)



section \<open>Metadata and download output\<close>

subsection \<open>The runner does not use the JSON parser\<close>

lemma firstExisting_parse [simp]:
  "firstExisting (w\<lparr>JSON_parse := f\<rparr>) cs = firstExisting w cs"
  by (induction cs) simp_all

lemma probeBases_parse [simp]:
  "probeBases (w\<lparr>JSON_parse := f\<rparr>) bs = probeBases w bs"
  by (induction bs) (simp_all add: probeBase_def cong: option.case_cong sum.case_cong if_cong)

lemma resolve_parse [simp]:
  "resolveIaExecutable (w\<lparr>JSON_parse := f\<rparr>) s = resolveIaExecutable w s"
  by (simp add: resolveIaExecutable_def pyenvRoot_def viaVersionFile_def viaVersionDirs_def
        viaPipOrShell_def pipBases_def
      cong: option.case_cong sum.case_cong if_cong)

lemma checkIaAvailable_parse [simp]:
  "checkIaAvailable (w\<lparr>JSON_parse := f\<rparr>) s = checkIaAvailable w s"
  by (simp add: checkIaAvailable_def cong: sum.case_cong prod.case_cong)

lemma runIa_parse [simp]:
  "runIa (w\<lparr>JSON_parse := f\<rparr>) s args t = runIa w s args t"
  by (simp add: runIa_def timeoutMessage_def cong: sum.case_cong prod.case_cong if_cong)

subsection \<open>Metadata\<close>

lemma handleMetadata_ran:
  assumes "checkIaAvailable w s = (Inr v, s1)"
    and "validateIdentifier (MetadataArgs.identifier args) = Inr ident"
    and "runIa w s1 [js ''metadata'', ident] DEFAULT_TIMEOUT_MS = (Inr out, s2)"
  shows "handleMetadata w s args =
           (if trim (stdout out) = [] then (errorResult (noMetadataMessage ident), s2)
            else (case JSON_parse w (trim (stdout out)) of
                    Inl msg \<Rightarrow> (errorResult (js ''Metadata retrieval failed: '' @ msg), s2)
                  | Inr parsed \<Rightarrow> (textResult (JSON_stringify w parsed), s2)))"
  using assms by (simp add: handleMetadata_def Let_def)

lemma noMetadataMessage_mentions: "sublist ident (noMetadataMessage ident)"
proof -
  have "noMetadataMessage ident =
          (js ''No metadata found for '' @ [DQ]) @ ident @ ([DQ] @ js ''. The item may not exist.'')"
    by (simp add: noMetadataMessage_def)
  then show ?thesis by (simp only: sublist_appendI)
qed


lemma missingItem_valid:
  "validateIdentifier (MetadataArgs.identifier missingItem) = Inr (js ''nonexistent-item-xyz'')"
  by (simp add: missingItem_def validateIdentifier_def matchesClassPlus_def trim_def
        char_evals class_evals)


subsection \<open>Download\<close>

lemma handleDownload_ran:
  assumes "checkIaAvailable w s = (Inr v, s1)"
    and "downloadArgv args = Inr (iaArgs, ident)"
    and "runIa w s1 iaArgs DOWNLOAD_TIMEOUT_MS = (Inr out, s2)"
  shows "handleDownload w s args =
           (if downloadOutput out = [] then (textResult (noOutputMessage ident), s2)
            else (textResult ((if truthyBool (dry_run args) then dryRunPrefix ident
                               else completedPrefix ident) @ downloadOutput out), s2))"
  using assms by (simp add: handleDownload_def Let_def)

lemma downloadOutput_cases:
  "downloadOutput out =
     trim (if stdout out = [] then stderr out
           else if stderr out = [] then stdout out
           else stdout out @ [LF] @ stderr out)"
  by (simp add: downloadOutput_def filterBoolean_def)

lemma trim_unchanged:
  assumes "s \<noteq> []" and "\<not> isWhiteSpace (hd s)" and "\<not> isWhiteSpace (last s)"
  shows "trim s = s"
  using trim_core [of "[]" "[]" s] assms by simp

lemma trim_all_whitespace:
  assumes "list_all isWhiteSpace s"
  shows "trim s = []"
proof -
  from assms have dropped: "dropWhile isWhiteSpace s = []"
    by (induction s) simp_all
  show ?thesis by (simp only: trim_def dropped rev.simps dropWhile.simps)
qed

lemma downloadOutput_blank:
  assumes "list_all isWhiteSpace (stdout out)" and "list_all isWhiteSpace (stderr out)"
  shows "downloadOutput out = []"
proof -
  have "isWhiteSpace LF" by (simp add: isWhiteSpace_def LF_def)
  with assms have "list_all isWhiteSpace (stdout out @ [LF] @ stderr out)" by simp
  with assms show ?thesis by (simp add: downloadOutput_cases trim_all_whitespace)
qed


lemma dryRunItem1_argv:
  "downloadArgv dryRunItem1 = Inr ([js ''download'', js ''item1'', js ''--dry-run''], js ''item1'')"
  by (simp add: downloadArgv_def dryRunItem1_def andThen_def pushOption_def truthyBool_def
        validateIdentifier_def matchesClassPlus_def trim_def char_evals class_evals)



section \<open>Optional parameters\<close>

subsection \<open>Falsy optional parameters\<close>

lemma pushFields_keeps:
  "pushFields iaArgs fs = Inr argv \<Longrightarrow> take (length iaArgs) argv = iaArgs"
proof (induction fs arbitrary: iaArgs)
  case Nil
  then show ?case by simp
next
  case (Cons f fs)
  then obtain validated where "pushFields (iaArgs @ [js ''--field'', validated]) fs = Inr argv"
    by (auto split: sum.splits)
  from Cons.IH [OF this] have "take (length iaArgs + 2) argv = iaArgs @ [js ''--field'', validated]"
    by simp
  then have "take (length iaArgs) (take (length iaArgs + 2) argv) = iaArgs"
    by simp
  then show ?case by (simp add: min_def)
qed

lemma searchArgv_parameters:
  assumes "searchArgv w args = Inr (argv, p, r)"
  shows "argv ! 3 = js ''page='' @ numberToString (Number_toString w) p @
                    js ''&rows='' @ numberToString (Number_toString w) r \<and>
         (\<not> truthyNumber (rows args) \<longrightarrow> r = Finite 50) \<and>
         (\<not> truthyNumber (page args) \<longrightarrow> p = Finite 1)"
proof -
  let ?R = "if truthyNumber (rows args) then validateRows (the (rows args)) else Inr (Finite 50)"
  let ?P = "if truthyNumber (page args) then validatePage (the (page args)) else Inr (Finite 1)"
  from assms obtain q where q: "validateQuery (query args) = Inr q"
    by (cases "validateQuery (query args)") (simp_all add: searchArgv_def andThen_def)
  from assms q obtain r' where r': "?R = Inr r'"
    by (cases ?R) (simp_all add: searchArgv_def andThen_def)
  from assms q r' obtain p' where p': "?P = Inr p'"
    by (cases ?P) (simp_all add: searchArgv_def andThen_def)
  let ?base = "[js ''search'', q, js ''--parameters'',
                   js ''page='' @ numberToString (Number_toString w) p' @
                   js ''&rows='' @ numberToString (Number_toString w) r']"
  let ?F = "case fields' args of
              None \<Rightarrow> Inr ?base
            | Some fs \<Rightarrow> if length fs > 0 then pushFields ?base fs else Inr ?base"
  from assms q r' p' have final: "andThen ?F (\<lambda>iaArgs. Inr (iaArgs, p', r')) = Inr (argv, p, r)"
    by (simp add: searchArgv_def andThen_def Let_def del: numberToString.simps)
  then have same: "p = p' \<and> r = r' \<and> ?F = Inr argv"
    by (cases ?F) (simp_all add: andThen_def)
  then have "argv = ?base \<or> (\<exists>fs. pushFields ?base fs = Inr argv)"
    by (auto split: option.splits if_splits)
  then have "take 4 argv = ?base"
  proof
    assume "argv = ?base"
    then show ?thesis by simp
  next
    assume "\<exists>fs. pushFields ?base fs = Inr argv"
    then obtain fs where "pushFields ?base fs = Inr argv" ..
    from pushFields_keeps [OF this] have "take (length ?base) argv = ?base" .
    moreover have "length ?base = 4" by simp
    ultimately show ?thesis by (simp only:)
  qed
  then have "take 4 argv ! 3 = ?base ! 3" by (simp only:)
  then have "argv ! 3 = ?base ! 3" by simp
  moreover from r' have "\<not> truthyNumber (rows args) \<longrightarrow> r' = Finite 50"
    by (auto split: if_splits)
  moreover from p' have "\<not> truthyNumber (page args) \<longrightarrow> p' = Finite 1"
    by (auto split: if_splits)
  ultimately show ?thesis using same by (simp del: numberToString.simps)
qed

lemma handleSearch_by_argv:
  "searchArgv w a = searchArgv w b \<Longrightarrow> handleSearch w s a = handleSearch w s b"
  by (simp add: handleSearch_def cong: prod.case_cong sum.case_cong)

lemma handleDownload_by_argv:
  "downloadArgv a = downloadArgv b \<Longrightarrow> dry_run a = dry_run b \<Longrightarrow>
   handleDownload w s a = handleDownload w s b"
  by (simp add: handleDownload_def cong: prod.case_cong sum.case_cong if_cong)

lemma searchArgv_rows_zero:
  "searchArgv w (args\<lparr>rows := Some (Finite 0)\<rparr>) = searchArgv w (args\<lparr>rows := None\<rparr>)"
  by (simp add: searchArgv_def)

lemma searchArgv_page_zero:
  "searchArgv w (args\<lparr>page := Some (Finite 0)\<rparr>) = searchArgv w (args\<lparr>page := None\<rparr>)"
  by (simp add: searchArgv_def)

lemma downloadArgv_glob_empty:
  "downloadArgv (d\<lparr>glob := Some []\<rparr>) = downloadArgv (d\<lparr>glob := None\<rparr>)"
  by (simp add: downloadArgv_def pushOption_def)

lemma downloadArgv_destdir_empty:
  "downloadArgv (d\<lparr>destdir := Some []\<rparr>) = downloadArgv (d\<lparr>destdir := None\<rparr>)"
  by (simp add: downloadArgv_def pushOption_def)

lemma downloadArgv_format_empty:
  "downloadArgv (d\<lparr>format := Some []\<rparr>) = downloadArgv (d\<lparr>format := None\<rparr>)"
  by (simp add: downloadArgv_def pushOption_def)

lemma handleDownload_available:
  assumes "checkIaAvailable w s = (Inr v, s1)"
    and "downloadArgv args = Inr (iaArgs, ident)"
  shows "handleDownload w s args =
           (case runIa w s1 iaArgs DOWNLOAD_TIMEOUT_MS of
              (Inl msg, s2) \<Rightarrow> (errorResult (js ''Download failed: '' @ msg), s2)
            | (Inr out, s2) \<Rightarrow>
                (if downloadOutput out = [] then (textResult (noOutputMessage ident), s2)
                 else (textResult
                         ((if truthyBool (dry_run args) then dryRunPrefix ident
                           else completedPrefix ident) @ downloadOutput out), s2)))"
  using assms by (auto simp: handleDownload_def Let_def split: prod.splits sum.splits)

lemma twoLines_records:
  "parseLines (sampleWorld False run) (searchLines (stdout twoLines)) = [JObject []]"
  by (simp add: twoLines_def searchLines_def filterBoolean_def trim_def sampleParse_def
        char_evals class_evals)

lemma handleSearch_available:
  assumes "checkIaAvailable w s = (Inr v, s1)"
    and "searchArgv w args = Inr (iaArgs, p, r)"
  shows "handleSearch w s args =
           (case runIa w s1 iaArgs DEFAULT_TIMEOUT_MS of
              (Inl msg, s2) \<Rightarrow> (errorResult (js ''Search failed: '' @ msg), s2)
            | (Inr out, s2) \<Rightarrow>
                (textResult (JSON_stringify w
                   (searchOutput (parseLines w (searchLines (stdout out))) p r)), s2))"
  using assms by (simp add: handleSearch_def)

lemma one_and_fifty:
  "numberToString other (Finite 1) = js ''1''" "numberToString other (Finite 50) = js ''50''"
  by (simp_all add: digitsOf.simps char_evals)

lemma searchArgv_both_zero:
  assumes "validateQuery (query args) = Inr q" and "fields' args = None"
  shows "searchArgv w (args\<lparr>rows := Some (Finite 0), page := Some (Finite 0)\<rparr>) =
           Inr ([js ''search'', q, js ''--parameters'', js ''page=1&rows=50''],
                Finite 1, Finite 50)"
proof -
  have "js ''page='' @ numberToString (Number_toString w) (Finite 1) @
        js ''&rows='' @ numberToString (Number_toString w) (Finite 50) = js ''page=1&rows=50''"
    by (simp only: one_and_fifty) (simp add: js_def)
  with assms show ?thesis
    by (simp add: searchArgv_def andThen_def del: numberToString.simps)
qed

lemma downloadArgv_all_empty:
  assumes "validateIdentifier (DownloadArgs.identifier d) = Inr ident"
  shows "downloadArgv (d\<lparr>glob := Some [], destdir := Some [], format := Some []\<rparr>) =
           Inr ([js ''download'', ident] @
                (if dry_run d = Some True then [js ''--dry-run''] else []), ident)"
  using assms by (simp add: downloadArgv_def andThen_def pushOption_def truthyBool_def)

lemma downloadArgv_one_empty:
  assumes "validateIdentifier (DownloadArgs.identifier d) = Inr ident"
  shows "downloadArgv (d\<lparr>glob := Some [], destdir := None, format := None\<rparr>) =
           Inr ([js ''download'', ident] @
                (if dry_run d = Some True then [js ''--dry-run''] else []), ident)"
    and "downloadArgv (d\<lparr>glob := None, destdir := Some [], format := None\<rparr>) =
           Inr ([js ''download'', ident] @
                (if dry_run d = Some True then [js ''--dry-run''] else []), ident)"
    and "downloadArgv (d\<lparr>glob := None, destdir := None, format := Some []\<rparr>) =
           Inr ([js ''download'', ident] @
                (if dry_run d = Some True then [js ''--dry-run''] else []), ident)"
  using assms by (simp_all add: downloadArgv_def andThen_def pushOption_def truthyBool_def)

lemma downloadArgv_one_given:
  assumes "validateIdentifier (DownloadArgs.identifier d) = Inr ident" and "x \<noteq> []"
  shows "validateGlob x = Inr x' \<Longrightarrow>
         downloadArgv (d\<lparr>glob := Some x, destdir := None, format := None\<rparr>) =
           Inr ([js ''download'', ident, js ''--glob'', x'] @
                (if dry_run d = Some True then [js ''--dry-run''] else []), ident)"
    and "validateDestdir x = Inr x' \<Longrightarrow>
         downloadArgv (d\<lparr>glob := None, destdir := Some x, format := None\<rparr>) =
           Inr ([js ''download'', ident, js ''--destdir'', x'] @
                (if dry_run d = Some True then [js ''--dry-run''] else []), ident)"
    and "validateFormat x = Inr x' \<Longrightarrow>
         downloadArgv (d\<lparr>glob := None, destdir := None, format := Some x\<rparr>) =
           Inr ([js ''download'', ident, js ''--format'', x'] @
                (if dry_run d = Some True then [js ''--dry-run''] else []), ident)"
  using assms by (simp_all add: downloadArgv_def andThen_def pushOption_def truthyBool_def)

lemma handleSearch_both_zero:
  assumes "checkIaAvailable w s = (Inr v, s1)"
    and "validateQuery (query args) = Inr q" and "fields' args = None"
  shows "handleSearch w s (args\<lparr>rows := Some (Finite 0), page := Some (Finite 0)\<rparr>) =
           (case runIa w s1 [js ''search'', q, js ''--parameters'', js ''page=1&rows=50'']
                   DEFAULT_TIMEOUT_MS of
              (Inl msg, s2) \<Rightarrow> (errorResult (js ''Search failed: '' @ msg), s2)
            | (Inr out, s2) \<Rightarrow>
                (textResult (JSON_stringify w
                   (searchOutput (parseLines w (searchLines (stdout out)))
                      (Finite 1) (Finite 50))), s2))"
  by (rule handleSearch_available [OF assms(1) searchArgv_both_zero [OF assms(2,3)]])

lemma handleDownload_all_empty:
  assumes "checkIaAvailable w s = (Inr v, s1)"
    and "validateIdentifier (DownloadArgs.identifier d) = Inr ident"
  shows "handleDownload w s (d\<lparr>glob := Some [], destdir := Some [], format := Some []\<rparr>) =
           (case runIa w s1 ([js ''download'', ident] @
                             (if dry_run d = Some True then [js ''--dry-run''] else []))
                   DOWNLOAD_TIMEOUT_MS of
              (Inl msg, s2) \<Rightarrow> (errorResult (js ''Download failed: '' @ msg), s2)
            | (Inr out, s2) \<Rightarrow>
                (if downloadOutput out = [] then (textResult (noOutputMessage ident), s2)
                 else (textResult
                         ((if dry_run d = Some True then dryRunPrefix ident
                           else completedPrefix ident) @ downloadOutput out), s2)))"
  using handleDownload_available [OF assms(1) downloadArgv_all_empty [OF assms(2)]]
  by (simp add: truthyBool_def cong: prod.case_cong sum.case_cong if_cong)

text \<open>
  Claim C9. A falsy optional parameter is treated as absent and never reaches its
  validator. A search with \<open>rows = 0\<close> and \<open>page = 0\<close> passes validation and runs the client
  with \<open>page=1&rows=50\<close>; either one alone behaves as when it is absent, with its default,
  although the validators reject 0. A download whose \<open>glob\<close>, \<open>destdir\<close> and \<open>format\<close> are
  empty strings passes validation and runs the client with the subcommand, the identifier
  and the dry-run flag only: no \<open>--glob\<close>, \<open>--destdir\<close> or \<open>--format\<close> is pushed, where a
  non-empty valid value pushes its flag and value; each one alone behaves as when it is
  absent, although each validator rejects the empty string.
\<close>

theorem falsy_optionals_skip_validation:
  "(\<forall>q. validateQuery (query args) = Inr q \<and> fields' args = None \<longrightarrow>
      searchArgv w (args\<lparr>rows := Some (Finite 0), page := Some (Finite 0)\<rparr>) =
        Inr ([js ''search'', q, js ''--parameters'', js ''page=1&rows=50''],
             Finite 1, Finite 50)) \<and>
   (\<forall>v s1 q. checkIaAvailable w s = (Inr v, s1) \<and>
      validateQuery (query args) = Inr q \<and> fields' args = None \<longrightarrow>
      handleSearch w s (args\<lparr>rows := Some (Finite 0), page := Some (Finite 0)\<rparr>) =
        (case runIa w s1 [js ''search'', q, js ''--parameters'', js ''page=1&rows=50'']
                DEFAULT_TIMEOUT_MS of
           (Inl msg, s2) \<Rightarrow> (errorResult (js ''Search failed: '' @ msg), s2)
         | (Inr out, s2) \<Rightarrow>
             (textResult (JSON_stringify w
                (searchOutput (parseLines w (searchLines (stdout out)))
                   (Finite 1) (Finite 50))), s2))) \<and>
   (\<forall>ident. validateIdentifier (DownloadArgs.identifier d) = Inr ident \<longrightarrow>
      downloadArgv (d\<lparr>glob := Some [], destdir := Some [], format := Some []\<rparr>) =
        Inr ([js ''download'', ident] @
             (if dry_run d = Some True then [js ''--dry-run''] else []), ident)) \<and>
   (\<forall>v s1 ident. checkIaAvailable w s = (Inr v, s1) \<and>
      validateIdentifier (DownloadArgs.identifier d) = Inr ident \<longrightarrow>
      handleDownload w s (d\<lparr>glob := Some [], destdir := Some [], format := Some []\<rparr>) =
        (case runIa w s1 ([js ''download'', ident] @
                          (if dry_run d = Some True then [js ''--dry-run''] else []))
                DOWNLOAD_TIMEOUT_MS of
           (Inl msg, s2) \<Rightarrow> (errorResult (js ''Download failed: '' @ msg), s2)
         | (Inr out, s2) \<Rightarrow>
             (if downloadOutput out = [] then (textResult (noOutputMessage ident), s2)
              else (textResult
                      ((if dry_run d = Some True then dryRunPrefix ident
                        else completedPrefix ident) @ downloadOutput out), s2)))) \<and>
   (\<forall>ident. validateIdentifier (DownloadArgs.identifier d) = Inr ident \<longrightarrow>
      downloadArgv (d\<lparr>glob := Some [], destdir := None, format := None\<rparr>) =
        Inr ([js ''download'', ident] @
             (if dry_run d = Some True then [js ''--dry-run''] else []), ident) \<and>
      downloadArgv (d\<lparr>glob := None, destdir := Some [], format := None\<rparr>) =
        Inr ([js ''download'', ident] @
             (if dry_run d = Some True then [js ''--dry-run''] else []), ident) \<and>
      downloadArgv (d\<lparr>glob := None, destdir := None, format := Some []\<rparr>) =
        Inr ([js ''download'', ident] @
             (if dry_run d = Some True then [js ''--dry-run''] else []), ident)) \<and>
   (\<forall>ident x x'. validateIdentifier (DownloadArgs.identifier d) = Inr ident \<and> x \<noteq> [] \<longrightarrow>
      (validateGlob x = Inr x' \<longrightarrow>
         downloadArgv (d\<lparr>glob := Some x, destdir := None, format := None\<rparr>) =
           Inr ([js ''download'', ident, js ''--glob'', x'] @
                (if dry_run d = Some True then [js ''--dry-run''] else []), ident)) \<and>
      (validateDestdir x = Inr x' \<longrightarrow>
         downloadArgv (d\<lparr>glob := None, destdir := Some x, format := None\<rparr>) =
           Inr ([js ''download'', ident, js ''--destdir'', x'] @
                (if dry_run d = Some True then [js ''--dry-run''] else []), ident)) \<and>
      (validateFormat x = Inr x' \<longrightarrow>
         downloadArgv (d\<lparr>glob := None, destdir := None, format := Some x\<rparr>) =
           Inr ([js ''download'', ident, js ''--format'', x'] @
                (if dry_run d = Some True then [js ''--dry-run''] else []), ident))) \<and>
   handleSearch w s (args\<lparr>rows := Some (Finite 0)\<rparr>) = handleSearch w s (args\<lparr>rows := None\<rparr>) \<and>
   handleSearch w s (args\<lparr>page := Some (Finite 0)\<rparr>) = handleSearch w s (args\<lparr>page := None\<rparr>) \<and>
   searchArgv w (args\<lparr>rows := Some (Finite 0)\<rparr>) = searchArgv w (args\<lparr>rows := None\<rparr>) \<and>
   searchArgv w (args\<lparr>page := Some (Finite 0)\<rparr>) = searchArgv w (args\<lparr>page := None\<rparr>) \<and>
   (\<forall>argv p r. searchArgv w (args\<lparr>rows := Some (Finite 0)\<rparr>) = Inr (argv, p, r) \<longrightarrow>
      r = Finite 50 \<and>
      argv ! 3 = js ''page='' @ numberToString (Number_toString w) p @ js ''&rows=50'') \<and>
   (\<forall>argv p r. searchArgv w (args\<lparr>page := Some (Finite 0)\<rparr>) = Inr (argv, p, r) \<longrightarrow>
      p = Finite 1 \<and>
      argv ! 3 = js ''page=1&rows='' @ numberToString (Number_toString w) r) \<and>
   isl (validateRows (Finite 0)) \<and> isl (validatePage (Finite 0)) \<and>
   handleDownload w s (d\<lparr>glob := Some []\<rparr>) = handleDownload w s (d\<lparr>glob := None\<rparr>) \<and>
   handleDownload w s (d\<lparr>destdir := Some []\<rparr>) = handleDownload w s (d\<lparr>destdir := None\<rparr>) \<and>
   handleDownload w s (d\<lparr>format := Some []\<rparr>) = handleDownload w s (d\<lparr>format := None\<rparr>) \<and>
   downloadArgv (d\<lparr>glob := Some []\<rparr>) = downloadArgv (d\<lparr>glob := None\<rparr>) \<and>
   downloadArgv (d\<lparr>destdir := Some []\<rparr>) = downloadArgv (d\<lparr>destdir := None\<rparr>) \<and>
   downloadArgv (d\<lparr>format := Some []\<rparr>) = downloadArgv (d\<lparr>format := None\<rparr>) \<and>
   isl (validateGlob []) \<and> isl (validateDestdir []) \<and> isl (validateFormat [])"
proof -
  have both_zero: "\<forall>q. validateQuery (query args) = Inr q \<and> fields' args = None \<longrightarrow>
      searchArgv w (args\<lparr>rows := Some (Finite 0), page := Some (Finite 0)\<rparr>) =
        Inr ([js ''search'', q, js ''--parameters'', js ''page=1&rows=50''],
             Finite 1, Finite 50)"
    using searchArgv_both_zero by blast
  have search_runs: "\<forall>v s1 q. checkIaAvailable w s = (Inr v, s1) \<and>
      validateQuery (query args) = Inr q \<and> fields' args = None \<longrightarrow>
      handleSearch w s (args\<lparr>rows := Some (Finite 0), page := Some (Finite 0)\<rparr>) =
        (case runIa w s1 [js ''search'', q, js ''--parameters'', js ''page=1&rows=50'']
                DEFAULT_TIMEOUT_MS of
           (Inl msg, s2) \<Rightarrow> (errorResult (js ''Search failed: '' @ msg), s2)
         | (Inr out, s2) \<Rightarrow>
             (textResult (JSON_stringify w
                (searchOutput (parseLines w (searchLines (stdout out)))
                   (Finite 1) (Finite 50))), s2))"
    using handleSearch_both_zero by blast
  have all_empty: "\<forall>ident. validateIdentifier (DownloadArgs.identifier d) = Inr ident \<longrightarrow>
      downloadArgv (d\<lparr>glob := Some [], destdir := Some [], format := Some []\<rparr>) =
        Inr ([js ''download'', ident] @
             (if dry_run d = Some True then [js ''--dry-run''] else []), ident)"
    using downloadArgv_all_empty by blast
  have download_runs: "\<forall>v s1 ident. checkIaAvailable w s = (Inr v, s1) \<and>
      validateIdentifier (DownloadArgs.identifier d) = Inr ident \<longrightarrow>
      handleDownload w s (d\<lparr>glob := Some [], destdir := Some [], format := Some []\<rparr>) =
        (case runIa w s1 ([js ''download'', ident] @
                          (if dry_run d = Some True then [js ''--dry-run''] else []))
                DOWNLOAD_TIMEOUT_MS of
           (Inl msg, s2) \<Rightarrow> (errorResult (js ''Download failed: '' @ msg), s2)
         | (Inr out, s2) \<Rightarrow>
             (if downloadOutput out = [] then (textResult (noOutputMessage ident), s2)
              else (textResult
                      ((if dry_run d = Some True then dryRunPrefix ident
                        else completedPrefix ident) @ downloadOutput out), s2)))"
    using handleDownload_all_empty by blast
  have one_empty: "\<forall>ident. validateIdentifier (DownloadArgs.identifier d) = Inr ident \<longrightarrow>
      downloadArgv (d\<lparr>glob := Some [], destdir := None, format := None\<rparr>) =
        Inr ([js ''download'', ident] @
             (if dry_run d = Some True then [js ''--dry-run''] else []), ident) \<and>
      downloadArgv (d\<lparr>glob := None, destdir := Some [], format := None\<rparr>) =
        Inr ([js ''download'', ident] @
             (if dry_run d = Some True then [js ''--dry-run''] else []), ident) \<and>
      downloadArgv (d\<lparr>glob := None, destdir := None, format := Some []\<rparr>) =
        Inr ([js ''download'', ident] @
             (if dry_run d = Some True then [js ''--dry-run''] else []), ident)"
    using downloadArgv_one_empty by blast
  have one_given: "\<forall>ident x x'. validateIdentifier (DownloadArgs.identifier d) = Inr ident \<and> x \<noteq> [] \<longrightarrow>
      (validateGlob x = Inr x' \<longrightarrow>
         downloadArgv (d\<lparr>glob := Some x, destdir := None, format := None\<rparr>) =
           Inr ([js ''download'', ident, js ''--glob'', x'] @
                (if dry_run d = Some True then [js ''--dry-run''] else []), ident)) \<and>
      (validateDestdir x = Inr x' \<longrightarrow>
         downloadArgv (d\<lparr>glob := None, destdir := Some x, format := None\<rparr>) =
           Inr ([js ''download'', ident, js ''--destdir'', x'] @
                (if dry_run d = Some True then [js ''--dry-run''] else []), ident)) \<and>
      (validateFormat x = Inr x' \<longrightarrow>
         downloadArgv (d\<lparr>glob := None, destdir := None, format := Some x\<rparr>) =
           Inr ([js ''download'', ident, js ''--format'', x'] @
                (if dry_run d = Some True then [js ''--dry-run''] else []), ident))"
    using downloadArgv_one_given by blast
  have rows50: "\<forall>argv p r. searchArgv w (args\<lparr>rows := Some (Finite 0)\<rparr>) = Inr (argv, p, r) \<longrightarrow>
      r = Finite 50 \<and>
      argv ! 3 = js ''page='' @ numberToString (Number_toString w) p @ js ''&rows=50''"
  proof (intro allI impI)
    fix argv p r
    assume argv: "searchArgv w (args\<lparr>rows := Some (Finite 0)\<rparr>) = Inr (argv, p, r)"
    from searchArgv_parameters [OF argv] have r: "r = Finite 50" by simp
    have "numberToString (Number_toString w) (Finite 50) = js ''50''"
      by (rule one_and_fifty)
    with r searchArgv_parameters [OF argv]
    show "r = Finite 50 \<and>
      argv ! 3 = js ''page='' @ numberToString (Number_toString w) p @ js ''&rows=50''"
      by (simp add: js_def del: numberToString.simps)
  qed
  have page1: "\<forall>argv p r. searchArgv w (args\<lparr>page := Some (Finite 0)\<rparr>) = Inr (argv, p, r) \<longrightarrow>
      p = Finite 1 \<and>
      argv ! 3 = js ''page=1&rows='' @ numberToString (Number_toString w) r"
  proof (intro allI impI)
    fix argv p r
    assume argv: "searchArgv w (args\<lparr>page := Some (Finite 0)\<rparr>) = Inr (argv, p, r)"
    from searchArgv_parameters [OF argv] have p: "p = Finite 1" by simp
    have "numberToString (Number_toString w) (Finite 1) = js ''1''"
      by (rule one_and_fifty)
    with p searchArgv_parameters [OF argv]
    show "p = Finite 1 \<and>
      argv ! 3 = js ''page=1&rows='' @ numberToString (Number_toString w) r"
      by (simp add: js_def del: numberToString.simps)
  qed
  have rejected: "isl (validateRows (Finite 0))" "isl (validatePage (Finite 0))"
      "isl (validateGlob [])" "isl (validateDestdir [])" "isl (validateFormat [])"
    by (simp_all add: validateRows_def validatePage_def validateGlob_def validateDestdir_def
          validateFormat_def trim_def)
  have search: "handleSearch w s (args\<lparr>rows := Some (Finite 0)\<rparr>) = handleSearch w s (args\<lparr>rows := None\<rparr>)"
    "handleSearch w s (args\<lparr>page := Some (Finite 0)\<rparr>) = handleSearch w s (args\<lparr>page := None\<rparr>)"
    by (rule handleSearch_by_argv, simp add: searchArgv_def)+
  have download: "handleDownload w s (d\<lparr>glob := Some []\<rparr>) = handleDownload w s (d\<lparr>glob := None\<rparr>)"
    "handleDownload w s (d\<lparr>destdir := Some []\<rparr>) = handleDownload w s (d\<lparr>destdir := None\<rparr>)"
    "handleDownload w s (d\<lparr>format := Some []\<rparr>) = handleDownload w s (d\<lparr>format := None\<rparr>)"
    by (rule handleDownload_by_argv, simp add: downloadArgv_def pushOption_def, simp)+
  show ?thesis
    by (intro conjI)
       (fact both_zero search_runs all_empty download_runs one_empty one_given
          rows50 page1 rejected search download searchArgv_rows_zero searchArgv_page_zero
          downloadArgv_glob_empty downloadArgv_destdir_empty downloadArgv_format_empty)+
qed

lemma apollo_query:
  "validateQuery (query apolloArgs) = Inr (js ''title:'' @ [DQ] @ js ''Apollo 11'' @ [DQ]) \<and>
   fields' apolloArgs = None"
  by (simp add: apolloArgs_def validateQuery_def trim_def char_evals class_evals)

lemma item1_identifier:
  "validateIdentifier (DownloadArgs.identifier dryRunItem1) = Inr (js ''item1'')"
  by (simp add: dryRunItem1_def validateIdentifier_def matchesClassPlus_def trim_def
        char_evals class_evals)

lemma pdf_glob: "validateGlob (js ''*.pdf'') = Inr (js ''*.pdf'')"
  by (simp add: validateGlob_def matchesClassPlus_def trim_def char_evals class_evals)

theorem falsy_optionals_skip_validation_witness:
  "searchArgv (sampleWorld False (answering twoLines))
     (apolloArgs\<lparr>rows := Some (Finite 0), page := Some (Finite 0)\<rparr>) =
     Inr ([js ''search'', js ''title:'' @ [DQ] @ js ''Apollo 11'' @ [DQ], js ''--parameters'',
           js ''page=1&rows=50''], Finite 1, Finite 50) \<and>
   handleSearch (sampleWorld False (answering twoLines)) initialState
     (apolloArgs\<lparr>rows := Some (Finite 0), page := Some (Finite 0)\<rparr>) =
     (textResult (compactJson
        (JObject [(js ''total_results'', JNumber (Finite 1)),
                  (js ''page'', JNumber (Finite 1)),
                  (js ''rows'', JNumber (Finite 50)),
                  (js ''results'', JArray [JObject []])])),
      resolvedPosix) \<and>
   handleSearch (sampleWorld False (answering twoLines)) initialState
     (apolloArgs\<lparr>rows := Some (Finite 0)\<rparr>) =
     handleSearch (sampleWorld False (answering twoLines)) initialState
     (apolloArgs\<lparr>rows := None\<rparr>) \<and>
   downloadArgv (dryRunItem1\<lparr>glob := Some [], destdir := Some [], format := Some []\<rparr>) =
     Inr ([js ''download'', js ''item1'', js ''--dry-run''], js ''item1'') \<and>
   handleDownload (sampleWorld False (answering dryRunStatus)) initialState
     (dryRunItem1\<lparr>glob := Some [], destdir := Some [], format := Some []\<rparr>) =
     (textResult (js ''Dry run for '' @ [DQ] @ js ''item1'' @ [DQ] @ js '':'' @ [LF] @
                  js ''item1: would download 3 files''), resolvedPosix) \<and>
   downloadArgv (dryRunItem1\<lparr>glob := Some (js ''*.pdf''), destdir := None, format := None\<rparr>) =
     Inr ([js ''download'', js ''item1'', js ''--glob'', js ''*.pdf'', js ''--dry-run''],
          js ''item1'') \<and>
   isl (validateRows (Finite 0)) \<and> isl (validateGlob [])"
proof -
  let ?w = "sampleWorld False (answering twoLines)"
  let ?v = "sampleWorld False (answering dryRunStatus)"
  note searching = falsy_optionals_skip_validation [of apolloArgs ?w initialState dryRunItem1]
  note downloading = falsy_optionals_skip_validation [of apolloArgs ?v initialState dryRunItem1]
  have flag: "dry_run dryRunItem1 = Some True"
    by (simp add: dryRunItem1_def)
  have argv: "searchArgv ?w (apolloArgs\<lparr>rows := Some (Finite 0), page := Some (Finite 0)\<rparr>) =
     Inr ([js ''search'', js ''title:'' @ [DQ] @ js ''Apollo 11'' @ [DQ], js ''--parameters'',
           js ''page=1&rows=50''], Finite 1, Finite 50)"
    by (rule searching [THEN conjunct1, rule_format, OF apollo_query])
  have run: "runIa ?w resolvedPosix
               [js ''search'', js ''title:'' @ [DQ] @ js ''Apollo 11'' @ [DQ], js ''--parameters'',
                js ''page=1&rows=50''] DEFAULT_TIMEOUT_MS =
               (Inr \<lparr>stdout = stdout twoLines, stderr = stderr twoLines\<rparr>, resolvedPosix)"
    by (rule runIa_answering) simp
  have searched: "handleSearch ?w initialState
     (apolloArgs\<lparr>rows := Some (Finite 0), page := Some (Finite 0)\<rparr>) =
     (textResult (compactJson
        (JObject [(js ''total_results'', JNumber (Finite 1)),
                  (js ''page'', JNumber (Finite 1)),
                  (js ''rows'', JNumber (Finite 50)),
                  (js ''results'', JArray [JObject []])])),
      resolvedPosix)"
    using searching [THEN conjunct2, THEN conjunct1, rule_format,
        OF conjI [OF available_answering apollo_query]]
    by (simp only: run prod.case sum.case) (simp add: twoLines_records searchOutput_def)
  have same: "handleSearch ?w initialState (apolloArgs\<lparr>rows := Some (Finite 0)\<rparr>) =
              handleSearch ?w initialState (apolloArgs\<lparr>rows := None\<rparr>)"
    by (rule searching [THEN conjunct2, THEN conjunct2, THEN conjunct2, THEN conjunct2, THEN conjunct2, THEN conjunct2, THEN conjunct1])
  have pushed: "downloadArgv (dryRunItem1\<lparr>glob := Some [], destdir := Some [], format := Some []\<rparr>) =
     Inr ([js ''download'', js ''item1'', js ''--dry-run''], js ''item1'')"
    using downloading [THEN conjunct2, THEN conjunct2, THEN conjunct1, rule_format, OF item1_identifier]
    by (simp add: flag)
  have ran: "runIa ?v resolvedPosix [js ''download'', js ''item1'', js ''--dry-run'']
               DOWNLOAD_TIMEOUT_MS =
             (Inr \<lparr>stdout = stdout dryRunStatus, stderr = stderr dryRunStatus\<rparr>, resolvedPosix)"
    by (rule runIa_answering) simp
  have status: "downloadOutput \<lparr>stdout = stdout dryRunStatus, stderr = stderr dryRunStatus\<rparr> =
                  js ''item1: would download 3 files''"
    by (simp add: downloadOutput_cases dryRunStatus_def trim_def char_evals class_evals)
  have nonempty: "js ''item1: would download 3 files'' \<noteq> []"
    by (simp add: js_def)
  have downloaded: "handleDownload ?v initialState
     (dryRunItem1\<lparr>glob := Some [], destdir := Some [], format := Some []\<rparr>) =
     (textResult (js ''Dry run for '' @ [DQ] @ js ''item1'' @ [DQ] @ js '':'' @ [LF] @
                  js ''item1: would download 3 files''), resolvedPosix)"
    using downloading [THEN conjunct2, THEN conjunct2, THEN conjunct2, THEN conjunct1, rule_format,
        OF conjI [OF available_answering item1_identifier]]
    by (simp add: flag ran status nonempty dryRunPrefix_def)
  have star: "js ''*.pdf'' \<noteq> []"
    by (simp add: js_def)
  have given: "downloadArgv (dryRunItem1\<lparr>glob := Some (js ''*.pdf''), destdir := None, format := None\<rparr>) =
     Inr ([js ''download'', js ''item1'', js ''--glob'', js ''*.pdf'', js ''--dry-run''],
          js ''item1'')"
    using downloading [THEN conjunct2, THEN conjunct2, THEN conjunct2, THEN conjunct2, THEN conjunct2, THEN conjunct1, rule_format,
        OF conjI [OF item1_identifier star], THEN conjunct1, rule_format, OF pdf_glob]
    by (simp add: flag)
  have zero: "isl (validateRows (Finite 0))"
    by (rule searching [THEN conjunct2, THEN conjunct2, THEN conjunct2, THEN conjunct2, THEN conjunct2, THEN conjunct2, THEN conjunct2, THEN conjunct2, THEN conjunct2, THEN conjunct2, THEN conjunct2, THEN conjunct2, THEN conjunct1])
  have empty: "isl (validateGlob [])"
    by (rule searching [THEN conjunct2, THEN conjunct2, THEN conjunct2, THEN conjunct2, THEN conjunct2, THEN conjunct2, THEN conjunct2, THEN conjunct2, THEN conjunct2, THEN conjunct2, THEN conjunct2, THEN conjunct2, THEN conjunct2, THEN conjunct2, THEN conjunct2, THEN conjunct2, THEN conjunct2, THEN conjunct2, THEN conjunct2, THEN conjunct2, THEN conjunct1])
  from argv searched same pushed downloaded given zero empty show ?thesis by (intro conjI)
qed

subsection \<open>Values that begin with a hyphen\<close>

lemma hyphen_identifier: "validateIdentifier (js ''--help'') = Inr (js ''--help'')"
  by (simp add: validateIdentifier_def matchesClassPlus_def trim_def char_evals class_evals)

lemma hyphen_glob: "validateGlob (js ''-x'') = Inr (js ''-x'')"
  by (simp add: validateGlob_def matchesClassPlus_def trim_def char_evals class_evals)

lemma hyphenArgs_argv:
  "downloadArgv hyphenArgs =
     Inr ([js ''download'', js ''--help'', js ''--glob'', js ''-x''], js ''--help'')"
proof -
  have "js ''-x'' \<noteq> []" by (simp add: js_def)
  then show ?thesis
    by (simp add: downloadArgv_def hyphenArgs_def andThen_def pushOption_def truthyBool_def
          hyphen_identifier hyphen_glob)
qed

text \<open>
  Claim C10. Values that begin with a hyphen pass validation: the identifier \<open>--help\<close> and
  the glob \<open>-x\<close> are returned unchanged, the hyphen being in both character classes. A
  download call with them then runs the client with the argument vector
  \<open>download --help --glob -x\<close>, the identifier directly after the subcommand, and the
  runner hands that vector to the child process as it is.
\<close>

theorem hyphen_values_reach_argv:
  "validateIdentifier (js ''--help'') = Inr (js ''--help'') \<and>
   validateGlob (js ''-x'') = Inr (js ''-x'') \<and>
   isIdentifierChar (ch CHR ''-'') \<and> isGlobChar (ch CHR ''-'') \<and>
   downloadArgv hyphenArgs =
     Inr ([js ''download'', js ''--help'', js ''--glob'', js ''-x''], js ''--help'') \<and>
   (\<forall>v s1. checkIaAvailable w s = (Inr v, s1) \<longrightarrow>
      handleDownload w s hyphenArgs =
        (case runIa w s1 [js ''download'', js ''--help'', js ''--glob'', js ''-x'']
                DOWNLOAD_TIMEOUT_MS of
           (Inl msg, s2) \<Rightarrow> (errorResult (js ''Download failed: '' @ msg), s2)
         | (Inr out, s2) \<Rightarrow>
             (if downloadOutput out = [] then (textResult (noOutputMessage (js ''--help'')), s2)
              else (textResult (completedPrefix (js ''--help'') @ downloadOutput out), s2)))) \<and>
   (\<forall>s1 r s2 t. resolveIaExecutable w s1 = (Inr r, s2) \<longrightarrow>
      runIa w s1 [js ''download'', js ''--help'', js ''--glob'', js ''-x''] t =
        (case execFile w (command r) [js ''download'', js ''--help'', js ''--glob'', js ''-x'']
                \<lparr>timeout = t, maxBuffer = Some (50 * 1024 * 1024), shell = useShell r\<rparr> of
           Inr out \<Rightarrow> (Inr \<lparr>stdout = stdout out, stderr = stderr out\<rparr>, s2)
         | Inl error \<Rightarrow>
             (if killed error
              then (Inl (timeoutMessage w [js ''download'', js ''--help'', js ''--glob'', js ''-x''] t), s2)
              else (Inl (js ''ia command failed: '' @ failureText error), s2))))"
proof -
  have classes: "isIdentifierChar (ch CHR ''-'')" "isGlobChar (ch CHR ''-'')"
    by (simp_all add: class_evals ch_def)
  have handler: "\<forall>v s1. checkIaAvailable w s = (Inr v, s1) \<longrightarrow>
      handleDownload w s hyphenArgs =
        (case runIa w s1 [js ''download'', js ''--help'', js ''--glob'', js ''-x'']
                DOWNLOAD_TIMEOUT_MS of
           (Inl msg, s2) \<Rightarrow> (errorResult (js ''Download failed: '' @ msg), s2)
         | (Inr out, s2) \<Rightarrow>
             (if downloadOutput out = [] then (textResult (noOutputMessage (js ''--help'')), s2)
              else (textResult (completedPrefix (js ''--help'') @ downloadOutput out), s2)))"
  proof (intro allI impI)
    fix v s1
    assume avail: "checkIaAvailable w s = (Inr v, s1)"
    have "\<not> truthyBool (dry_run hyphenArgs)"
      by (simp add: truthyBool_def hyphenArgs_def)
    with handleDownload_available [OF avail hyphenArgs_argv]
    show "handleDownload w s hyphenArgs =
        (case runIa w s1 [js ''download'', js ''--help'', js ''--glob'', js ''-x'']
                DOWNLOAD_TIMEOUT_MS of
           (Inl msg, s2) \<Rightarrow> (errorResult (js ''Download failed: '' @ msg), s2)
         | (Inr out, s2) \<Rightarrow>
             (if downloadOutput out = [] then (textResult (noOutputMessage (js ''--help'')), s2)
              else (textResult (completedPrefix (js ''--help'') @ downloadOutput out), s2)))"
      by (simp cong: prod.case_cong sum.case_cong if_cong)
  qed
  have runner: "\<forall>s1 r s2 t. resolveIaExecutable w s1 = (Inr r, s2) \<longrightarrow>
      runIa w s1 [js ''download'', js ''--help'', js ''--glob'', js ''-x''] t =
        (case execFile w (command r) [js ''download'', js ''--help'', js ''--glob'', js ''-x'']
                \<lparr>timeout = t, maxBuffer = Some (50 * 1024 * 1024), shell = useShell r\<rparr> of
           Inr out \<Rightarrow> (Inr \<lparr>stdout = stdout out, stderr = stderr out\<rparr>, s2)
         | Inl error \<Rightarrow>
             (if killed error
              then (Inl (timeoutMessage w [js ''download'', js ''--help'', js ''--glob'', js ''-x''] t), s2)
              else (Inl (js ''ia command failed: '' @ failureText error), s2)))"
    using runIa_resolved by blast
  show ?thesis
    by (intro conjI) (fact hyphen_identifier hyphen_glob classes hyphenArgs_argv handler runner)+
qed

theorem hyphen_values_reach_argv_witness:
  "handleDownload (sampleWorld False (answering usageText)) initialState hyphenArgs =
     (textResult (js ''Download completed for '' @ [DQ] @ js ''--help'' @ [DQ] @ js '':'' @ [LF] @
                  js ''usage: ia download''), resolvedPosix)"
proof -
  let ?w = "sampleWorld False (answering usageText)"
  have run: "runIa ?w resolvedPosix [js ''download'', js ''--help'', js ''--glob'', js ''-x'']
               DOWNLOAD_TIMEOUT_MS =
             (Inr \<lparr>stdout = stdout usageText, stderr = stderr usageText\<rparr>, resolvedPosix)"
    by (rule runIa_answering) simp
  have out: "downloadOutput \<lparr>stdout = stdout usageText, stderr = stderr usageText\<rparr> =
               js ''usage: ia download''"
    by (simp add: downloadOutput_cases usageText_def trim_def char_evals class_evals)
  have nonempty: "js ''usage: ia download'' \<noteq> []"
    by (simp add: js_def)
  from hyphen_values_reach_argv [of ?w initialState]
  have "handleDownload ?w initialState hyphenArgs =
        (case runIa ?w resolvedPosix [js ''download'', js ''--help'', js ''--glob'', js ''-x'']
                DOWNLOAD_TIMEOUT_MS of
           (Inl msg, s2) \<Rightarrow> (errorResult (js ''Download failed: '' @ msg), s2)
         | (Inr out, s2) \<Rightarrow>
             (if downloadOutput out = [] then (textResult (noOutputMessage (js ''--help'')), s2)
              else (textResult (completedPrefix (js ''--help'') @ downloadOutput out), s2)))"
    using available_answering [of usageText] by blast
  then show ?thesis
    by (simp add: run out nonempty completedPrefix_def)
qed

section \<open>Failure results\<close>

subsection \<open>What the handlers return on failure\<close>

lemma checkIaAvailable_Inl:
  "checkIaAvailable w s = (Inl e, s1) \<Longrightarrow> e = unavailableMessage"
  by (auto simp: checkIaAvailable_def split: prod.splits sum.splits)

lemma unavailable_all:
  assumes "checkIaAvailable w s = (Inl e, s1)"
  shows "handleSearch w s sa = (errorResult unavailableMessage, s1) \<and>
         handleMetadata w s ma = (errorResult unavailableMessage, s1) \<and>
         handleList w s la = (errorResult unavailableMessage, s1) \<and>
         handleDownload w s da = (errorResult unavailableMessage, s1)"
  using assms checkIaAvailable_Inl [OF assms]
  by (simp add: handleSearch_def handleMetadata_def handleList_def handleDownload_def)

lemma search_failures:
  assumes "checkIaAvailable w s = (Inr v, s1)"
  shows "(\<forall>msg. searchArgv w sa = Inl msg \<longrightarrow>
            handleSearch w s sa = (errorResult (js ''Search failed: '' @ msg), s1)) \<and>
         (\<forall>argv p r msg s2.
            searchArgv w sa = Inr (argv, p, r) \<and>
            runIa w s1 argv DEFAULT_TIMEOUT_MS = (Inl msg, s2) \<longrightarrow>
            handleSearch w s sa = (errorResult (js ''Search failed: '' @ msg), s2))"
  using assms by (simp add: handleSearch_def)

lemma metadata_failures:
  assumes "checkIaAvailable w s = (Inr v, s1)"
  shows "(\<forall>msg. validateIdentifier (MetadataArgs.identifier ma) = Inl msg \<longrightarrow>
            handleMetadata w s ma = (errorResult (js ''Metadata retrieval failed: '' @ msg), s1)) \<and>
         (\<forall>ident msg s2.
            validateIdentifier (MetadataArgs.identifier ma) = Inr ident \<and>
            runIa w s1 [js ''metadata'', ident] DEFAULT_TIMEOUT_MS = (Inl msg, s2) \<longrightarrow>
            handleMetadata w s ma = (errorResult (js ''Metadata retrieval failed: '' @ msg), s2)) \<and>
         (\<forall>ident out s2.
            validateIdentifier (MetadataArgs.identifier ma) = Inr ident \<and>
            runIa w s1 [js ''metadata'', ident] DEFAULT_TIMEOUT_MS = (Inr out, s2) \<and>
            trim (stdout out) = [] \<longrightarrow>
            handleMetadata w s ma = (errorResult (noMetadataMessage ident), s2)) \<and>
         (\<forall>ident out s2 msg.
            validateIdentifier (MetadataArgs.identifier ma) = Inr ident \<and>
            runIa w s1 [js ''metadata'', ident] DEFAULT_TIMEOUT_MS = (Inr out, s2) \<and>
            trim (stdout out) \<noteq> [] \<and> JSON_parse w (trim (stdout out)) = Inl msg \<longrightarrow>
            handleMetadata w s ma = (errorResult (js ''Metadata retrieval failed: '' @ msg), s2))"
  using assms by (simp add: handleMetadata_def Let_def)

lemma list_failures:
  assumes "checkIaAvailable w s = (Inr v, s1)"
  shows "(\<forall>msg. validateIdentifier (ListArgs.identifier la) = Inl msg \<longrightarrow>
            handleList w s la = (errorResult (js ''List failed: '' @ msg), s1)) \<and>
         (\<forall>ident msg s2.
            validateIdentifier (ListArgs.identifier la) = Inr ident \<and>
            runIa w s1 [js ''list'', ident, js ''--all'', js ''--verbose''] DEFAULT_TIMEOUT_MS =
              (Inl msg, s2) \<longrightarrow>
            handleList w s la = (errorResult (js ''List failed: '' @ msg), s2)) \<and>
         (\<forall>ident out s2.
            validateIdentifier (ListArgs.identifier la) = Inr ident \<and>
            runIa w s1 [js ''list'', ident, js ''--all'', js ''--verbose''] DEFAULT_TIMEOUT_MS =
              (Inr out, s2) \<and>
            trim (stdout out) = [] \<longrightarrow>
            handleList w s la = (errorResult (noFilesMessage ident), s2))"
  using assms by (simp add: handleList_def Let_def)

lemma download_failures:
  assumes "checkIaAvailable w s = (Inr v, s1)"
  shows "(\<forall>msg. downloadArgv da = Inl msg \<longrightarrow>
            handleDownload w s da = (errorResult (js ''Download failed: '' @ msg), s1)) \<and>
         (\<forall>argv ident msg s2.
            downloadArgv da = Inr (argv, ident) \<and>
            runIa w s1 argv DOWNLOAD_TIMEOUT_MS = (Inl msg, s2) \<longrightarrow>
            handleDownload w s da = (errorResult (js ''Download failed: '' @ msg), s2))"
  using assms by (simp add: handleDownload_def)

lemma runIa_failure_messages:
  assumes "runIa w s' args t = (Inl msg, s2)"
  shows "msg = timeoutMessage w args t \<or>
         (\<exists>error. msg = js ''ia command failed: '' @ failureText error) \<or>
         fst (resolveIaExecutable w s') = Inl msg"
  using assms by (auto simp: runIa_def split: prod.splits sum.splits if_splits)

lemma search_error_texts:
  assumes "isError (fst (handleSearch w s sa))"
  shows "\<exists>text. fst (handleSearch w s sa) = errorResult text \<and>
           (text = unavailableMessage \<or> (\<exists>cause. text = js ''Search failed: '' @ cause))"
  using assms
  by (auto simp: handleSearch_def textResult_def dest: checkIaAvailable_Inl
           split: prod.splits sum.splits)

lemma metadata_error_texts:
  assumes "isError (fst (handleMetadata w s ma))"
  shows "\<exists>text. fst (handleMetadata w s ma) = errorResult text \<and>
           (text = unavailableMessage \<or> (\<exists>ident. text = noMetadataMessage ident) \<or>
            (\<exists>cause. text = js ''Metadata retrieval failed: '' @ cause))"
  using assms
  by (auto simp: handleMetadata_def textResult_def Let_def dest: checkIaAvailable_Inl
           split: prod.splits sum.splits if_splits)

lemma list_error_texts:
  assumes "isError (fst (handleList w s la))"
  shows "\<exists>text. fst (handleList w s la) = errorResult text \<and>
           (text = unavailableMessage \<or> (\<exists>ident. text = noFilesMessage ident) \<or>
            (\<exists>cause. text = js ''List failed: '' @ cause))"
  using assms
  by (auto simp: handleList_def textResult_def Let_def dest: checkIaAvailable_Inl
           split: prod.splits sum.splits if_splits)

lemma download_error_texts:
  assumes "isError (fst (handleDownload w s da))"
  shows "\<exists>text. fst (handleDownload w s da) = errorResult text \<and>
           (text = unavailableMessage \<or> (\<exists>cause. text = js ''Download failed: '' @ cause))"
  using assms
  by (auto simp: handleDownload_def textResult_def Let_def dest: checkIaAvailable_Inl
           split: prod.splits sum.splits if_splits)

text \<open>
  Claim C2, as amended. Every handler returns a result for every input. When the
  availability check fails, the result is an error whose text is the fixed installation
  guidance, which does not name the operation. When validation fails, when the invocation
  fails (with the timeout message or with \<open>ia command failed:\<close> and the cause), or when
  the metadata document does not parse, the result is an error whose text is
  \<open>Search failed:\<close>, \<open>Metadata retrieval failed:\<close>, \<open>List failed:\<close> or
  \<open>Download failed:\<close> followed by the cause's message. When the metadata or list
  output is empty, the result is an error whose text is the not-found message with the
  identifier. Every error result of a handler has one of these texts.
\<close>

theorem handler_failure_texts:
  "(\<forall>e s1. checkIaAvailable w s = (Inl e, s1) \<longrightarrow>
      handleSearch w s sa = (errorResult unavailableMessage, s1) \<and>
      handleMetadata w s ma = (errorResult unavailableMessage, s1) \<and>
      handleList w s la = (errorResult unavailableMessage, s1) \<and>
      handleDownload w s da = (errorResult unavailableMessage, s1)) \<and>
   (\<forall>v s1. checkIaAvailable w s = (Inr v, s1) \<longrightarrow>
      (\<forall>msg. searchArgv w sa = Inl msg \<longrightarrow>
         handleSearch w s sa = (errorResult (js ''Search failed: '' @ msg), s1)) \<and>
      (\<forall>argv p r msg s2.
         searchArgv w sa = Inr (argv, p, r) \<and>
         runIa w s1 argv DEFAULT_TIMEOUT_MS = (Inl msg, s2) \<longrightarrow>
         handleSearch w s sa = (errorResult (js ''Search failed: '' @ msg), s2)) \<and>
      (\<forall>msg. validateIdentifier (MetadataArgs.identifier ma) = Inl msg \<longrightarrow>
         handleMetadata w s ma = (errorResult (js ''Metadata retrieval failed: '' @ msg), s1)) \<and>
      (\<forall>ident msg s2.
         validateIdentifier (MetadataArgs.identifier ma) = Inr ident \<and>
         runIa w s1 [js ''metadata'', ident] DEFAULT_TIMEOUT_MS = (Inl msg, s2) \<longrightarrow>
         handleMetadata w s ma = (errorResult (js ''Metadata retrieval failed: '' @ msg), s2)) \<and>
      (\<forall>ident out s2.
         validateIdentifier (MetadataArgs.identifier ma) = Inr ident \<and>
         runIa w s1 [js ''metadata'', ident] DEFAULT_TIMEOUT_MS = (Inr out, s2) \<and>
         trim (stdout out) = [] \<longrightarrow>
         handleMetadata w s ma = (errorResult (noMetadataMessage ident), s2)) \<and>
      (\<forall>ident out s2 msg.
         validateIdentifier (MetadataArgs.identifier ma) = Inr ident \<and>
         runIa w s1 [js ''metadata'', ident] DEFAULT_TIMEOUT_MS = (Inr out, s2) \<and>
         trim (stdout out) \<noteq> [] \<and> JSON_parse w (trim (stdout out)) = Inl msg \<longrightarrow>
         handleMetadata w s ma = (errorResult (js ''Metadata retrieval failed: '' @ msg), s2)) \<and>
      (\<forall>msg. validateIdentifier (ListArgs.identifier la) = Inl msg \<longrightarrow>
         handleList w s la = (errorResult (js ''List failed: '' @ msg), s1)) \<and>
      (\<forall>ident msg s2.
         validateIdentifier (ListArgs.identifier la) = Inr ident \<and>
         runIa w s1 [js ''list'', ident, js ''--all'', js ''--verbose''] DEFAULT_TIMEOUT_MS =
           (Inl msg, s2) \<longrightarrow>
         handleList w s la = (errorResult (js ''List failed: '' @ msg), s2)) \<and>
      (\<forall>ident out s2.
         validateIdentifier (ListArgs.identifier la) = Inr ident \<and>
         runIa w s1 [js ''list'', ident, js ''--all'', js ''--verbose''] DEFAULT_TIMEOUT_MS =
           (Inr out, s2) \<and>
         trim (stdout out) = [] \<longrightarrow>
         handleList w s la = (errorResult (noFilesMessage ident), s2)) \<and>
      (\<forall>msg. downloadArgv da = Inl msg \<longrightarrow>
         handleDownload w s da = (errorResult (js ''Download failed: '' @ msg), s1)) \<and>
      (\<forall>argv ident msg s2.
         downloadArgv da = Inr (argv, ident) \<and>
         runIa w s1 argv DOWNLOAD_TIMEOUT_MS = (Inl msg, s2) \<longrightarrow>
         handleDownload w s da = (errorResult (js ''Download failed: '' @ msg), s2))) \<and>
   (\<forall>s' args t msg s2. runIa w s' args t = (Inl msg, s2) \<longrightarrow>
      msg = timeoutMessage w args t \<or>
      (\<exists>error. msg = js ''ia command failed: '' @ failureText error) \<or>
      fst (resolveIaExecutable w s') = Inl msg) \<and>
   (isError (fst (handleSearch w s sa)) \<longrightarrow>
      (\<exists>text. fst (handleSearch w s sa) = errorResult text \<and>
         (text = unavailableMessage \<or> (\<exists>cause. text = js ''Search failed: '' @ cause)))) \<and>
   (isError (fst (handleMetadata w s ma)) \<longrightarrow>
      (\<exists>text. fst (handleMetadata w s ma) = errorResult text \<and>
         (text = unavailableMessage \<or> (\<exists>ident. text = noMetadataMessage ident) \<or>
          (\<exists>cause. text = js ''Metadata retrieval failed: '' @ cause)))) \<and>
   (isError (fst (handleList w s la)) \<longrightarrow>
      (\<exists>text. fst (handleList w s la) = errorResult text \<and>
         (text = unavailableMessage \<or> (\<exists>ident. text = noFilesMessage ident) \<or>
          (\<exists>cause. text = js ''List failed: '' @ cause)))) \<and>
   (isError (fst (handleDownload w s da)) \<longrightarrow>
      (\<exists>text. fst (handleDownload w s da) = errorResult text \<and>
         (text = unavailableMessage \<or> (\<exists>cause. text = js ''Download failed: '' @ cause)))) \<and>
   (\<forall>text. isError (errorResult text) \<and> content (errorResult text) = [text])"
proof -
  have unavailable: "\<forall>e s1. checkIaAvailable w s = (Inl e, s1) \<longrightarrow>
      handleSearch w s sa = (errorResult unavailableMessage, s1) \<and>
      handleMetadata w s ma = (errorResult unavailableMessage, s1) \<and>
      handleList w s la = (errorResult unavailableMessage, s1) \<and>
      handleDownload w s da = (errorResult unavailableMessage, s1)"
    using unavailable_all by blast
  have runner: "\<forall>s' args t msg s2. runIa w s' args t = (Inl msg, s2) \<longrightarrow>
      msg = timeoutMessage w args t \<or>
      (\<exists>error. msg = js ''ia command failed: '' @ failureText error) \<or>
      fst (resolveIaExecutable w s') = Inl msg"
    using runIa_failure_messages by blast
  have shape: "\<forall>text. isError (errorResult text) \<and> content (errorResult text) = [text]"
    by (simp add: errorResult_def)
  have available: "\<forall>v s1. checkIaAvailable w s = (Inr v, s1) \<longrightarrow>
      (\<forall>msg. searchArgv w sa = Inl msg \<longrightarrow>
         handleSearch w s sa = (errorResult (js ''Search failed: '' @ msg), s1)) \<and>
      (\<forall>argv p r msg s2.
         searchArgv w sa = Inr (argv, p, r) \<and>
         runIa w s1 argv DEFAULT_TIMEOUT_MS = (Inl msg, s2) \<longrightarrow>
         handleSearch w s sa = (errorResult (js ''Search failed: '' @ msg), s2)) \<and>
      (\<forall>msg. validateIdentifier (MetadataArgs.identifier ma) = Inl msg \<longrightarrow>
         handleMetadata w s ma = (errorResult (js ''Metadata retrieval failed: '' @ msg), s1)) \<and>
      (\<forall>ident msg s2.
         validateIdentifier (MetadataArgs.identifier ma) = Inr ident \<and>
         runIa w s1 [js ''metadata'', ident] DEFAULT_TIMEOUT_MS = (Inl msg, s2) \<longrightarrow>
         handleMetadata w s ma = (errorResult (js ''Metadata retrieval failed: '' @ msg), s2)) \<and>
      (\<forall>ident out s2.
         validateIdentifier (MetadataArgs.identifier ma) = Inr ident \<and>
         runIa w s1 [js ''metadata'', ident] DEFAULT_TIMEOUT_MS = (Inr out, s2) \<and>
         trim (stdout out) = [] \<longrightarrow>
         handleMetadata w s ma = (errorResult (noMetadataMessage ident), s2)) \<and>
      (\<forall>ident out s2 msg.
         validateIdentifier (MetadataArgs.identifier ma) = Inr ident \<and>
         runIa w s1 [js ''metadata'', ident] DEFAULT_TIMEOUT_MS = (Inr out, s2) \<and>
         trim (stdout out) \<noteq> [] \<and> JSON_parse w (trim (stdout out)) = Inl msg \<longrightarrow>
         handleMetadata w s ma = (errorResult (js ''Metadata retrieval failed: '' @ msg), s2)) \<and>
      (\<forall>msg. validateIdentifier (ListArgs.identifier la) = Inl msg \<longrightarrow>
         handleList w s la = (errorResult (js ''List failed: '' @ msg), s1)) \<and>
      (\<forall>ident msg s2.
         validateIdentifier (ListArgs.identifier la) = Inr ident \<and>
         runIa w s1 [js ''list'', ident, js ''--all'', js ''--verbose''] DEFAULT_TIMEOUT_MS =
           (Inl msg, s2) \<longrightarrow>
         handleList w s la = (errorResult (js ''List failed: '' @ msg), s2)) \<and>
      (\<forall>ident out s2.
         validateIdentifier (ListArgs.identifier la) = Inr ident \<and>
         runIa w s1 [js ''list'', ident, js ''--all'', js ''--verbose''] DEFAULT_TIMEOUT_MS =
           (Inr out, s2) \<and>
         trim (stdout out) = [] \<longrightarrow>
         handleList w s la = (errorResult (noFilesMessage ident), s2)) \<and>
      (\<forall>msg. downloadArgv da = Inl msg \<longrightarrow>
         handleDownload w s da = (errorResult (js ''Download failed: '' @ msg), s1)) \<and>
      (\<forall>argv ident msg s2.
         downloadArgv da = Inr (argv, ident) \<and>
         runIa w s1 argv DOWNLOAD_TIMEOUT_MS = (Inl msg, s2) \<longrightarrow>
         handleDownload w s da = (errorResult (js ''Download failed: '' @ msg), s2))"
  proof (intro allI impI)
    fix v s1
    assume a: "checkIaAvailable w s = (Inr v, s1)"
    from search_failures [OF a, of sa] metadata_failures [OF a, of ma]
      list_failures [OF a, of la] download_failures [OF a, of da]
    show "(\<forall>msg. searchArgv w sa = Inl msg \<longrightarrow>
         handleSearch w s sa = (errorResult (js ''Search failed: '' @ msg), s1)) \<and>
      (\<forall>argv p r msg s2.
         searchArgv w sa = Inr (argv, p, r) \<and>
         runIa w s1 argv DEFAULT_TIMEOUT_MS = (Inl msg, s2) \<longrightarrow>
         handleSearch w s sa = (errorResult (js ''Search failed: '' @ msg), s2)) \<and>
      (\<forall>msg. validateIdentifier (MetadataArgs.identifier ma) = Inl msg \<longrightarrow>
         handleMetadata w s ma = (errorResult (js ''Metadata retrieval failed: '' @ msg), s1)) \<and>
      (\<forall>ident msg s2.
         validateIdentifier (MetadataArgs.identifier ma) = Inr ident \<and>
         runIa w s1 [js ''metadata'', ident] DEFAULT_TIMEOUT_MS = (Inl msg, s2) \<longrightarrow>
         handleMetadata w s ma = (errorResult (js ''Metadata retrieval failed: '' @ msg), s2)) \<and>
      (\<forall>ident out s2.
         validateIdentifier (MetadataArgs.identifier ma) = Inr ident \<and>
         runIa w s1 [js ''metadata'', ident] DEFAULT_TIMEOUT_MS = (Inr out, s2) \<and>
         trim (stdout out) = [] \<longrightarrow>
         handleMetadata w s ma = (errorResult (noMetadataMessage ident), s2)) \<and>
      (\<forall>ident out s2 msg.
         validateIdentifier (MetadataArgs.identifier ma) = Inr ident \<and>
         runIa w s1 [js ''metadata'', ident] DEFAULT_TIMEOUT_MS = (Inr out, s2) \<and>
         trim (stdout out) \<noteq> [] \<and> JSON_parse w (trim (stdout out)) = Inl msg \<longrightarrow>
         handleMetadata w s ma = (errorResult (js ''Metadata retrieval failed: '' @ msg), s2)) \<and>
      (\<forall>msg. validateIdentifier (ListArgs.identifier la) = Inl msg \<longrightarrow>
         handleList w s la = (errorResult (js ''List failed: '' @ msg), s1)) \<and>
      (\<forall>ident msg s2.
         validateIdentifier (ListArgs.identifier la) = Inr ident \<and>
         runIa w s1 [js ''list'', ident, js ''--all'', js ''--verbose''] DEFAULT_TIMEOUT_MS =
           (Inl msg, s2) \<longrightarrow>
         handleList w s la = (errorResult (js ''List failed: '' @ msg), s2)) \<and>
      (\<forall>ident out s2.
         validateIdentifier (ListArgs.identifier la) = Inr ident \<and>
         runIa w s1 [js ''list'', ident, js ''--all'', js ''--verbose''] DEFAULT_TIMEOUT_MS =
           (Inr out, s2) \<and>
         trim (stdout out) = [] \<longrightarrow>
         handleList w s la = (errorResult (noFilesMessage ident), s2)) \<and>
      (\<forall>msg. downloadArgv da = Inl msg \<longrightarrow>
         handleDownload w s da = (errorResult (js ''Download failed: '' @ msg), s1)) \<and>
      (\<forall>argv ident msg s2.
         downloadArgv da = Inr (argv, ident) \<and>
         runIa w s1 argv DOWNLOAD_TIMEOUT_MS = (Inl msg, s2) \<longrightarrow>
         handleDownload w s da = (errorResult (js ''Download failed: '' @ msg), s2))"
      by (intro conjI) (elim conjE, assumption)+
  qed
  have texts:
    "isError (fst (handleSearch w s sa)) \<longrightarrow>
      (\<exists>text. fst (handleSearch w s sa) = errorResult text \<and>
         (text = unavailableMessage \<or> (\<exists>cause. text = js ''Search failed: '' @ cause)))"
    "isError (fst (handleMetadata w s ma)) \<longrightarrow>
      (\<exists>text. fst (handleMetadata w s ma) = errorResult text \<and>
         (text = unavailableMessage \<or> (\<exists>ident. text = noMetadataMessage ident) \<or>
          (\<exists>cause. text = js ''Metadata retrieval failed: '' @ cause)))"
    "isError (fst (handleList w s la)) \<longrightarrow>
      (\<exists>text. fst (handleList w s la) = errorResult text \<and>
         (text = unavailableMessage \<or> (\<exists>ident. text = noFilesMessage ident) \<or>
          (\<exists>cause. text = js ''List failed: '' @ cause)))"
    "isError (fst (handleDownload w s da)) \<longrightarrow>
      (\<exists>text. fst (handleDownload w s da) = errorResult text \<and>
         (text = unavailableMessage \<or> (\<exists>cause. text = js ''Download failed: '' @ cause)))"
    by (intro impI, erule search_error_texts metadata_error_texts list_error_texts
          download_error_texts)+
  show ?thesis
    by (intro conjI) (fact unavailable available runner texts shape)+
qed

lemma unavailable_notInstalled:
  "checkIaAvailable (sampleWorld False notInstalled) initialState =
     (Inl unavailableMessage, resolvedPosix)"
  by (simp add: checkIaAvailable_def resolve_posix notInstalled_def)

lemma runIa_failingWith:
  "args \<noteq> [js ''--version''] \<Longrightarrow>
   runIa (sampleWorld False (failingWith e)) resolvedPosix args t =
     (if killed e
      then (Inl (timeoutMessage (sampleWorld False (failingWith e)) args t), resolvedPosix)
      else (Inl (js ''ia command failed: '' @ failureText e), resolvedPosix))"
  by (simp add: runIa_def resolve_posix_again failingWith_def)

lemma unavailableMessage_unnamed:
  "\<not> sublist (js ''Search'') unavailableMessage \<and> \<not> sublist (js ''search'') unavailableMessage"
  by (simp add: unavailableMessage_def char_evals sublist_code)

text \<open>
  Claim C2 as stated fails: with no client installed a search call returns an error whose
  text is the installation guidance, in which the operation is not named.
\<close>

theorem unavailable_text_counterexample:
  "handleSearch (sampleWorld False notInstalled) initialState apolloArgs =
     (errorResult unavailableMessage, resolvedPosix) \<and>
   isError (errorResult unavailableMessage) \<and>
   content (errorResult unavailableMessage) = [unavailableMessage] \<and>
   \<not> sublist (js ''Search'') unavailableMessage \<and>
   \<not> sublist (js ''search'') unavailableMessage"
  using unavailable_all [OF unavailable_notInstalled, of apolloArgs] unavailableMessage_unnamed
  by (simp add: errorResult_def)

theorem handler_failure_texts_witness:
  "handleSearch (sampleWorld False notInstalled) initialState apolloArgs =
     (errorResult unavailableMessage, resolvedPosix) \<and>
   handleMetadata (sampleWorld False (answering blankOutput)) initialState badIdentifier =
     (errorResult (js ''Metadata retrieval failed: Invalid identifier '' @ [DQ] @ js ''bad id'' @
                   [DQ] @ js ''. Only letters, digits, hyphens, underscores, and periods are allowed.''),
      resolvedPosix) \<and>
   handleList (sampleWorld False (answering blankOutput)) initialState listItem1 =
     (errorResult (js ''No files found for '' @ [DQ] @ js ''item1'' @ [DQ] @
                   js ''. The item may not exist.''), resolvedPosix) \<and>
   handleDownload (sampleWorld False (failingWith killedFailure)) initialState dryRunItem1 =
     (errorResult (js ''Download failed: ia command timed out after 600 seconds. '' @
                   js ''Command: ia download item1 --dry-run''), resolvedPosix) \<and>
   handleSearch (sampleWorld False (failingWith spawnFailure)) initialState apolloArgs =
     (errorResult (js ''Search failed: ia command failed: spawn ia ENOENT''), resolvedPosix)"
proof -
  note none = handler_failure_texts [of "sampleWorld False notInstalled" initialState apolloArgs
      badIdentifier listItem1 dryRunItem1, THEN conjunct1, rule_format,
      OF unavailable_notInstalled]
  note blank_world = handler_failure_texts [of "sampleWorld False (answering blankOutput)"
      initialState apolloArgs badIdentifier listItem1 dryRunItem1, THEN conjunct2,
      THEN conjunct1, rule_format, OF available_answering]
  note killed_world = handler_failure_texts [of "sampleWorld False (failingWith killedFailure)"
      initialState apolloArgs badIdentifier listItem1 dryRunItem1, THEN conjunct2,
      THEN conjunct1, rule_format, OF available_failingWith]
  note spawn_world = handler_failure_texts [of "sampleWorld False (failingWith spawnFailure)"
      initialState apolloArgs badIdentifier listItem1 dryRunItem1, THEN conjunct2,
      THEN conjunct1, rule_format, OF available_failingWith]
  have first: "handleSearch (sampleWorld False notInstalled) initialState apolloArgs =
     (errorResult unavailableMessage, resolvedPosix)"
    by (rule none [THEN conjunct1])
  have bad: "validateIdentifier (MetadataArgs.identifier badIdentifier) =
      Inl (js ''Invalid identifier '' @ [DQ] @ js ''bad id'' @ [DQ] @
           js ''. Only letters, digits, hyphens, underscores, and periods are allowed.'')"
    by (simp add: badIdentifier_def validateIdentifier_def matchesClassPlus_def trim_def
          char_evals class_evals)
  have second: "handleMetadata (sampleWorld False (answering blankOutput)) initialState badIdentifier =
     (errorResult (js ''Metadata retrieval failed: Invalid identifier '' @ [DQ] @ js ''bad id'' @
                   [DQ] @ js ''. Only letters, digits, hyphens, underscores, and periods are allowed.''),
      resolvedPosix)"
    using blank_world [THEN conjunct2, THEN conjunct2, THEN conjunct1, rule_format, OF bad]
    by (simp add: js_def)
  have item1: "validateIdentifier (ListArgs.identifier listItem1) = Inr (js ''item1'')"
    by (simp add: listItem1_def validateIdentifier_def matchesClassPlus_def trim_def
          char_evals class_evals)
  have listed: "runIa (sampleWorld False (answering blankOutput)) resolvedPosix
                  [js ''list'', js ''item1'', js ''--all'', js ''--verbose''] DEFAULT_TIMEOUT_MS =
                (Inr \<lparr>stdout = stdout blankOutput, stderr = stderr blankOutput\<rparr>, resolvedPosix)"
    by (rule runIa_answering) simp
  have blank: "trim (stdout \<lparr>stdout = stdout blankOutput, stderr = stderr blankOutput\<rparr>) = []"
    by (simp add: blankOutput_def trim_def char_evals class_evals)
  have third: "handleList (sampleWorld False (answering blankOutput)) initialState listItem1 =
     (errorResult (js ''No files found for '' @ [DQ] @ js ''item1'' @ [DQ] @
                   js ''. The item may not exist.''), resolvedPosix)"
    using blank_world [THEN conjunct2, THEN conjunct2, THEN conjunct2, THEN conjunct2,
        THEN conjunct2, THEN conjunct2, THEN conjunct2, THEN conjunct2, THEN conjunct1,
        rule_format, OF conjI [OF item1 conjI [OF listed blank]]]
    by (simp add: noFilesMessage_def)
  have killed: "runIa (sampleWorld False (failingWith killedFailure)) resolvedPosix
                  [js ''download'', js ''item1'', js ''--dry-run''] DOWNLOAD_TIMEOUT_MS =
                (Inl (js ''ia command timed out after 600 seconds. '' @
                      js ''Command: ia download item1 --dry-run''), resolvedPosix)"
    by (simp add: runIa_failingWith killedFailure_def timeoutMessage_def download_seconds js_def)
  have fourth: "handleDownload (sampleWorld False (failingWith killedFailure)) initialState dryRunItem1 =
     (errorResult (js ''Download failed: ia command timed out after 600 seconds. '' @
                   js ''Command: ia download item1 --dry-run''), resolvedPosix)"
    using killed_world [THEN conjunct2, THEN conjunct2, THEN conjunct2, THEN conjunct2,
        THEN conjunct2, THEN conjunct2, THEN conjunct2, THEN conjunct2, THEN conjunct2,
        THEN conjunct2, rule_format, OF conjI [OF dryRunItem1_argv killed]]
    by (simp add: js_def)
  have spawn: "runIa (sampleWorld False (failingWith spawnFailure)) resolvedPosix
                  [js ''search'', js ''title:'' @ [DQ] @ js ''Apollo 11'' @ [DQ], js ''--parameters'',
                   js ''page=1&rows=2''] DEFAULT_TIMEOUT_MS =
                (Inl (js ''ia command failed: spawn ia ENOENT''), resolvedPosix)"
    by (simp add: runIa_failingWith spawnFailure_def failureText_def orElse_def js_def)
  have fifth: "handleSearch (sampleWorld False (failingWith spawnFailure)) initialState apolloArgs =
     (errorResult (js ''Search failed: ia command failed: spawn ia ENOENT''), resolvedPosix)"
    using spawn_world [THEN conjunct2, THEN conjunct1, rule_format,
        OF conjI [OF apollo_argv spawn]]
    by (simp add: js_def)
  from first second third fourth fifth show ?thesis by (intro conjI)
qed

end
